theory Spec2Isabelle
  imports Complex_Main
begin

section \<open>Python values and errors\<close>

text \<open>
  Numbers read from the simulator and computed by the program are Python floats; they are
  modelled as real numbers, so rounding is not part of the model. The functions of Python's
  \<open>math\<close> module that reject arguments outside their domain return an error value here.
\<close>

datatype py_error =
    ValueError      \<comment> \<open>math domain error\<close>
  | TypeError       \<comment> \<open>an operation applied to \<open>None\<close>\<close>
  | IndexError      \<comment> \<open>a list index out of range\<close>
  | OSError         \<comment> \<open>a file could not be opened or read\<close>
  | JSONDecodeError \<comment> \<open>a file did not parse\<close>
  | ReadError string \<comment> \<open>an exception raised by a telemetry read\<close>

definition radians :: "real \<Rightarrow> real" where
  "radians x = x * (pi / 180)"

definition py_sqrt :: "real \<Rightarrow> py_error + real" where
  "py_sqrt x = (if x < 0 then Inl ValueError else Inr (sqrt x))"

definition py_asin :: "real \<Rightarrow> py_error + real" where
  "py_asin x = (if x < - 1 \<or> 1 < x then Inl ValueError else Inr (arcsin x))"

section \<open>GeoMath: \<open>calculate_distance\<close>\<close>

text \<open>The argument of the square root in \<open>calculate_distance\<close> (the local variable \<open>a\<close>).\<close>

definition haversine_a :: "real \<Rightarrow> real \<Rightarrow> real \<Rightarrow> real \<Rightarrow> real" where
  "haversine_a lat1 lon1 lat2 lon2 =
     (let lat1_rad = radians lat1;
          lat2_rad = radians lat2;
          delta_lat = radians (lat2 - lat1);
          delta_lon = radians (lon2 - lon1)
      in (sin (delta_lat / 2))\<^sup>2 + cos lat1_rad * cos lat2_rad * (sin (delta_lon / 2))\<^sup>2)"

text \<open>
  The last two lines of \<open>calculate_distance\<close>, \<open>c = 2 * asin(sqrt(a))\<close> and
  \<open>return R * c\<close>, on a given value of \<open>a\<close>.
\<close>

definition distance_of_a :: "real \<Rightarrow> py_error + real" where
  "distance_of_a a =
     (let R = 3440.065
      in case py_sqrt a of
           Inl e \<Rightarrow> Inl e
         | Inr r \<Rightarrow> (case py_asin r of
                       Inl e \<Rightarrow> Inl e
                     | Inr h \<Rightarrow> Inr (R * (2 * h))))"

text \<open>
  \<open>calculate_distance\<close> with \<open>a\<close> computed exactly. The program computes \<open>a\<close> in
  binary64, where the result can differ from the exact one in the last places.
\<close>

definition calculate_distance :: "real \<Rightarrow> real \<Rightarrow> real \<Rightarrow> real \<Rightarrow> py_error + real" where
  "calculate_distance lat1 lon1 lat2 lon2 =
     distance_of_a (haversine_a lat1 lon1 lat2 lon2)"

text \<open>The number that \<open>calculate_distance\<close> returns when no domain error occurs.\<close>

definition great_circle_nm :: "real \<Rightarrow> real \<Rightarrow> real \<Rightarrow> real \<Rightarrow> real" where
  "great_circle_nm lat1 lon1 lat2 lon2 =
     3440.065 * (2 * arcsin (sqrt (haversine_a lat1 lon1 lat2 lon2)))"

section \<open>LandingRater: \<open>get_landing_rating\<close>\<close>

text \<open>
  The rating string is a run of the star emoji U+2B50; a \<open>string\<close> holds bytes, so one
  star is its three UTF-8 bytes.
\<close>

definition star :: string where
  "star = [CHR 0xE2, CHR 0xAD, CHR 0x90]"

definition stars :: "nat \<Rightarrow> string" where
  "stars n = concat (replicate n star)"

definition fpm_score :: "real \<Rightarrow> real" where
  "fpm_score fpm =
     (let abs_fpm = \<bar>fpm\<bar>
      in if abs_fpm < 100 then 100
         else if abs_fpm < 200 then 85
         else if abs_fpm < 300 then 70
         else if abs_fpm < 400 then 50
         else if abs_fpm < 600 then 30
         else 10)"

definition g_score :: "real \<Rightarrow> real" where
  "g_score g_force =
     (if g_force < 1.3 then 100
      else if g_force < 1.5 then 85
      else if g_force < 1.8 then 70
      else if g_force < 2.0 then 50
      else if g_force < 2.5 then 30
      else 10)"

definition combined_score :: "real \<Rightarrow> real \<Rightarrow> real" where
  "combined_score fpm g_force = (fpm_score fpm * 0.6) + (g_score g_force * 0.4)"

definition get_landing_rating :: "real \<Rightarrow> real \<Rightarrow> string \<times> string \<times> string" where
  "get_landing_rating fpm g_force =
     (if combined_score fpm g_force \<ge> 95 then
        (stars 5, ''PERFECT - Butter Landing!'', ''#a6e3a1'')
      else if combined_score fpm g_force \<ge> 80 then
        (stars 4, ''Excellent Landing'', ''#a6e3a1'')
      else if combined_score fpm g_force \<ge> 65 then
        (stars 3, ''Good Landing'', ''#f9e2af'')
      else if combined_score fpm g_force \<ge> 45 then
        (stars 2, ''Acceptable Landing'', ''#fab387'')
      else
        (stars 1, ''Hard Landing - Check Aircraft!'', ''#f38ba8''))"

section \<open>Data model\<close>

text \<open>One entry of \<open>self.waypoints\<close> (a dict with the keys below).\<close>

record waypoint =
  wp_id :: string
  wp_lat :: real
  wp_lon :: real
  wp_altitude :: real
  pause :: bool

text \<open>
  \<open>self.landing_data\<close>. A key holding \<open>None\<close>, and a key that is not in the dict yet
  (\<open>approach_distance\<close>, \<open>avg_descent\<close>), is \<open>None\<close> here. The key \<open>on_ground\<close> is
  the touchdown latch.
\<close>

record landing_data =
  touchdown_fpm :: "real option"
  touchdown_g :: "real option"
  touchdown_lat :: "real option"
  touchdown_lon :: "real option"
  ld_on_ground :: bool
  timestamp :: "string option"
  airport :: string
  approach_distance :: "real option"
  avg_descent :: "real option"

text \<open>One entry of \<open>self.landing_history\<close>.\<close>

record history_entry =
  h_timestamp :: "string option"
  h_fpm :: real
  h_g_force :: real
  h_lat :: "real option"
  h_lon :: "real option"
  h_airport :: string
  h_rating :: string
  h_rating_text :: string

text \<open>The seven values read from the simulator at the head of one loop iteration.\<close>

record sample =
  plane_latitude :: real
  plane_longitude :: real
  plane_altitude :: real
  vertical_speed :: real
  sim_on_ground :: real
  g_force :: real
  plane_heading_degrees_true :: real

datatype log_message =
    StartedMonitoring
  | StoppedMonitoring
  | AircraftAirborne
  | RecordingApproach
  | Landing real real
  | ReachedPaused string
  | MonitoringError py_error
  | FailedToSaveHistory
  | LandingDataReset
  | HistoryCleared

text \<open>
  Everything the program does to the outside, in the order it does it: the Qt signals it
  emits, the command sent to the simulator, the scripts run on the map, the write of the
  history file, the refresh of the history table, and the sleep that ends an iteration.
\<close>

datatype event =
    LogSignal log_message
  | PositionSignal real real real real
  | ApproachSignal real real real
  | LandingSignal landing_data
  | WaypointSignal
  | SimEvent string int
  | AddLandingMarker real real real real
  | ClearBreadcrumbs
  | HistoryFileWritten "history_entry list"
  | HistoryTableUpdated "history_entry list"
  | Sleep nat

text \<open>
  The fields of \<open>self\<close> that the monitoring code uses, the three local variables of
  \<open>monitor_flight\<close> (\<open>was_airborne\<close>, \<open>last_check_time\<close>, \<open>recording_approach\<close>), and the
  trace of events so far.
\<close>

record monitor =
  waypoints :: "waypoint list"
  monitoring :: bool
  landing_history :: "history_entry list"
  approach_path :: "(real \<times> real \<times> real) list"
  landing_data :: landing_data
  last_altitude :: real
  was_airborne :: bool
  last_check_time :: real
  recording_approach :: bool
  trace :: "event list"

text \<open>
  What the environment answers during one iteration: the telemetry reads (one failure
  fails the iteration before anything else happens), \<open>datetime.now()\<close> as formatted,
  \<open>time.time()\<close>, and whether writing the history file succeeds.
\<close>

record tick_env =
  reading :: "py_error + sample"
  now :: string
  clock :: real
  disk_ok :: bool

text \<open>
  A statement sequence inside \<open>try\<close> either completes or raises; either way the state
  changed so far stays.
\<close>

datatype outcome = Completed | Raised py_error

definition and_then ::
  "outcome \<times> monitor \<Rightarrow> (monitor \<Rightarrow> outcome \<times> monitor) \<Rightarrow> outcome \<times> monitor" where
  "and_then r f = (case r of (Completed, s) \<Rightarrow> f s | (Raised e, s) \<Rightarrow> (Raised e, s))"

definition emit :: "event \<Rightarrow> monitor \<Rightarrow> monitor" where
  "emit e s = s\<lparr>trace := trace s @ [e]\<rparr>"

definition initial_landing_data :: landing_data where
  "initial_landing_data =
     \<lparr>touchdown_fpm = None, touchdown_g = None, touchdown_lat = None, touchdown_lon = None,
      ld_on_ground = True, timestamp = None, airport = ''Unknown'',
      approach_distance = None, avg_descent = None\<rparr>"

section \<open>HistoryStore\<close>

datatype json =
    JNull
  | JBool bool
  | JNumber real
  | JString string
  | JArray "json list"
  | JObject "(string \<times> json) list"

text \<open>What opening and parsing the history file gives, when the file exists.\<close>

datatype file_read = OpenFails | ParseFails | Parses json

definition json_load_file :: "file_read \<Rightarrow> py_error + json" where
  "json_load_file f =
     (case f of OpenFails \<Rightarrow> Inl OSError | ParseFails \<Rightarrow> Inl JSONDecodeError | Parses v \<Rightarrow> Inr v)"

text \<open>\<open>None\<close> is the file that does not exist (\<open>os.path.exists\<close> is false).\<close>

definition load_landing_history :: "file_read option \<Rightarrow> py_error + json" where
  "load_landing_history history_file =
     (case history_file of
        Some f \<Rightarrow> (case json_load_file f of Inr v \<Rightarrow> Inr v | Inl e \<Rightarrow> Inr (JArray []))
      | None \<Rightarrow> Inr (JArray []))"

definition save_landing_history :: "bool \<Rightarrow> monitor \<Rightarrow> monitor" where
  "save_landing_history ok s =
     (if ok then emit (HistoryFileWritten (landing_history s)) s
      else emit (LogSignal FailedToSaveHistory) s)"

text \<open>
  The refresh of the history table, which shows every entry. The model covers histories
  whose entries all have a timestamp and a position, as the touchdown branch records
  them; formatting the row of any other entry raises \<open>TypeError\<close>, which is not modelled.
\<close>

definition update_history_table :: "monitor \<Rightarrow> monitor" where
  "update_history_table s = emit (HistoryTableUpdated (landing_history s)) s"

definition save_landing_to_history :: "bool \<Rightarrow> landing_data \<Rightarrow> monitor \<Rightarrow> outcome \<times> monitor" where
  "save_landing_to_history ok data s =
     (case touchdown_fpm data of
        None \<Rightarrow> (Raised TypeError, s)
      | Some fpm \<Rightarrow>
         (case touchdown_g data of
            None \<Rightarrow> (Raised TypeError, s)
          | Some g \<Rightarrow>
             (case get_landing_rating fpm g of
                (rating, text, color) \<Rightarrow>
                  let history_entry =
                        \<lparr>h_timestamp = timestamp data, h_fpm = fpm, h_g_force = g,
                         h_lat = touchdown_lat data, h_lon = touchdown_lon data,
                         h_airport = airport data, h_rating = rating, h_rating_text = text\<rparr>;
                      s1 = s\<lparr>landing_history := history_entry # landing_history s\<rparr>;
                      s2 = (if length (landing_history s1) > 100
                            then s1\<lparr>landing_history := take 100 (landing_history s1)\<rparr>
                            else s1)
                  in (Completed, update_history_table (save_landing_history ok s2)))))"

text \<open>\<open>reply\<close> is the answer to the confirmation dialog.\<close>

definition clear_history :: "bool \<Rightarrow> bool \<Rightarrow> monitor \<Rightarrow> monitor" where
  "clear_history reply ok s =
     (if reply then
        emit (LogSignal HistoryCleared)
          (update_history_table (save_landing_history ok (s\<lparr>landing_history := []\<rparr>)))
      else s)"

text \<open>Calling \<open>save_landing_to_history\<close> once per element of a list, in order.\<close>

fun save_all :: "(bool \<times> landing_data) list \<Rightarrow> monitor \<Rightarrow> outcome \<times> monitor" where
  "save_all [] s = (Completed, s)"
| "save_all ((ok, data) # rest) s = and_then (save_landing_to_history ok data s) (save_all rest)"

text \<open>The history entry that \<open>save_landing_to_history\<close> builds from a landing record.\<close>

definition entry_of :: "landing_data \<Rightarrow> history_entry" where
  "entry_of data =
     \<lparr>h_timestamp = timestamp data, h_fpm = the (touchdown_fpm data),
      h_g_force = the (touchdown_g data),
      h_lat = touchdown_lat data, h_lon = touchdown_lon data, h_airport = airport data,
      h_rating = fst (get_landing_rating (the (touchdown_fpm data)) (the (touchdown_g data))),
      h_rating_text =
        fst (snd (get_landing_rating (the (touchdown_fpm data)) (the (touchdown_g data))))\<rparr>"

section \<open>Session control\<close>

definition toggle_monitoring :: "monitor \<Rightarrow> monitor" where
  "toggle_monitoring s =
     (if \<not> monitoring s then
        (emit ClearBreadcrumbs (emit (LogSignal StartedMonitoring) (s\<lparr>monitoring := True\<rparr>)))
          \<lparr>approach_path := []\<rparr>
      else emit (LogSignal StoppedMonitoring) (s\<lparr>monitoring := False\<rparr>))"

definition reset_landing_data :: "monitor \<Rightarrow> monitor" where
  "reset_landing_data s =
     emit (LogSignal LandingDataReset)
       (s\<lparr>landing_data := initial_landing_data, approach_path := []\<rparr>)"

section \<open>FlightEventDetector: \<open>monitor_flight\<close>\<close>

text \<open>
  The slot connected to \<open>approach_signal\<close>. Signal delivery is taken as immediate: the
  point is in the path when the emitting statement has run.
\<close>

definition add_approach_point :: "real \<Rightarrow> real \<Rightarrow> real \<Rightarrow> monitor \<Rightarrow> monitor" where
  "add_approach_point lat lon alt s = s\<lparr>approach_path := approach_path s @ [(lat, lon, alt)]\<rparr>"

definition check_takeoff :: "sample \<Rightarrow> monitor \<Rightarrow> monitor" where
  "check_takeoff x s =
     (if sim_on_ground x = 0 \<and> \<not> was_airborne s then
        emit (LogSignal AircraftAirborne)
          (s\<lparr>was_airborne := True,
             landing_data := (landing_data s)\<lparr>ld_on_ground := False\<rparr>\<rparr>)
      else s)"

text \<open>\<open>not on_ground\<close> on a number is \<open>on_ground == 0\<close>.\<close>

definition record_approach :: "sample \<Rightarrow> monitor \<Rightarrow> monitor" where
  "record_approach x s =
     (if was_airborne s \<and> plane_altitude x < 3000 \<and> vertical_speed x < - 100
         \<and> sim_on_ground x = 0 then
        let s1 = (if \<not> recording_approach s
                  then emit (LogSignal RecordingApproach) (s\<lparr>recording_approach := True\<rparr>)
                  else s)
        in add_approach_point (plane_latitude x) (plane_longitude x) (plane_altitude x)
             (emit (ApproachSignal (plane_latitude x) (plane_longitude x) (plane_altitude x)) s1)
      else s)"

text \<open>
  The list comprehension of the average descent rate: for every index \<open>i > 0\<close> of the
  path, the absolute altitude difference to the point before.
\<close>

definition descent_steps :: "(real \<times> real \<times> real) list \<Rightarrow> real list" where
  "descent_steps path =
     map (\<lambda>i. \<bar>snd (snd (path ! i)) - snd (snd (path ! (i - 1)))\<bar>) [1..<length path]"

definition approach_stats :: "sample \<Rightarrow> monitor \<Rightarrow> outcome \<times> monitor" where
  "approach_stats x s =
     (if length (approach_path s) > 1 then
        (case approach_path s of
           [] \<Rightarrow> (Raised IndexError, s)
         | start_point # _ \<Rightarrow>
            (case calculate_distance (fst start_point) (fst (snd start_point))
                    (plane_latitude x) (plane_longitude x) of
               Inl e \<Rightarrow> (Raised e, s)
             | Inr distance \<Rightarrow>
                 let s1 = s\<lparr>landing_data := (landing_data s)\<lparr>approach_distance := Some distance\<rparr>\<rparr>;
                     total_vs = sum_list (descent_steps (approach_path s1));
                     avg_vs = (if length (approach_path s1) > 1
                               then total_vs / real (length (approach_path s1) - 1) else 0)
                 in (Completed,
                     s1\<lparr>landing_data := (landing_data s1)\<lparr>avg_descent := Some avg_vs\<rparr>\<rparr>)))
      else (Completed, s))"

definition check_landing :: "tick_env \<Rightarrow> sample \<Rightarrow> monitor \<Rightarrow> outcome \<times> monitor" where
  "check_landing env x s =
     (if sim_on_ground x = 1 \<and> was_airborne s \<and> \<not> ld_on_ground (landing_data s) then
        let s1 = s\<lparr>landing_data := (landing_data s)
                    \<lparr>touchdown_fpm := Some (vertical_speed x),
                     touchdown_g := Some (g_force x),
                     touchdown_lat := Some (plane_latitude x),
                     touchdown_lon := Some (plane_longitude x),
                     ld_on_ground := True,
                     timestamp := Some (now env)\<rparr>\<rparr>
        in and_then (approach_stats x s1) (\<lambda>s2.
           and_then (save_landing_to_history (disk_ok env) (landing_data s2) s2) (\<lambda>s3.
             (Completed,
              (emit (AddLandingMarker (plane_latitude x) (plane_longitude x)
                       (vertical_speed x) (g_force x))
                (emit (LogSignal (Landing (vertical_speed x) (g_force x)))
                  (emit (LandingSignal (landing_data s3)) s3)))
              \<lparr>recording_approach := False\<rparr>)))
      else (Completed, s))"

text \<open>
  The \<open>for\<close> loop over the waypoints: the waypoints after the loop and the events emitted,
  in order. When the distance computation raises, the waypoints before stay as changed and
  the rest are not visited.
\<close>

fun check_waypoints ::
  "real \<Rightarrow> real \<Rightarrow> waypoint list \<Rightarrow> outcome \<times> waypoint list \<times> event list" where
  "check_waypoints lat lon [] = (Completed, [], [])"
| "check_waypoints lat lon (wp # wps) =
     (if pause wp then
        (case calculate_distance lat lon (wp_lat wp) (wp_lon wp) of
           Inl e \<Rightarrow> (Raised e, wp # wps, [])
         | Inr distance \<Rightarrow>
            (if distance < 0.5 then
               (case check_waypoints lat lon wps of
                  (r, wps', evs) \<Rightarrow>
                    (r, wp\<lparr>pause := False\<rparr> # wps',
                     [SimEvent ''PAUSE_SET'' 1, LogSignal (ReachedPaused (wp_id wp)),
                      WaypointSignal] @ evs))
             else
               (case check_waypoints lat lon wps of
                  (r, wps', evs) \<Rightarrow> (r, wp # wps', evs))))
      else
        (case check_waypoints lat lon wps of
           (r, wps', evs) \<Rightarrow> (r, wp # wps', evs)))"

definition check_proximity :: "tick_env \<Rightarrow> sample \<Rightarrow> monitor \<Rightarrow> outcome \<times> monitor" where
  "check_proximity env x s =
     (let current_time = clock env
      in if current_time - last_check_time s > 2 then
           (case check_waypoints (plane_latitude x) (plane_longitude x) (waypoints s) of
              (r, wps', evs) \<Rightarrow>
                let s1 = s\<lparr>waypoints := wps', trace := trace s @ evs\<rparr>
                in (case r of
                      Raised e \<Rightarrow> (Raised e, s1)
                    | Completed \<Rightarrow> (Completed, s1\<lparr>last_check_time := current_time\<rparr>)))
         else (Completed, s))"

text \<open>The body of \<open>try\<close> in the loop.\<close>

definition tick_body :: "tick_env \<Rightarrow> monitor \<Rightarrow> outcome \<times> monitor" where
  "tick_body env s =
     (case reading env of
        Inl e \<Rightarrow> (Raised e, s)
      | Inr x \<Rightarrow>
          let s1 = emit (PositionSignal (plane_latitude x) (plane_longitude x)
                           (plane_heading_degrees_true x) (plane_altitude x)) s;
              s2 = check_takeoff x s1;
              s3 = record_approach x s2
          in and_then (check_landing env x s3) (\<lambda>s4.
             and_then (check_proximity env x s4) (\<lambda>s5.
               (Completed, emit (Sleep 1) (s5\<lparr>last_altitude := plane_altitude x\<rparr>)))))"

text \<open>One iteration of the loop: the \<open>try\<close> body, and the \<open>except\<close> handler when it raised.\<close>

definition loop_iteration :: "tick_env \<Rightarrow> monitor \<Rightarrow> monitor" where
  "loop_iteration env s =
     (case tick_body env s of
        (Completed, s') \<Rightarrow> s'
      | (Raised e, s') \<Rightarrow> emit (Sleep 2) (emit (LogSignal (MonitoringError e)) s'))"

text \<open>
  \<open>while self.monitoring\<close>: the flag is written by the control surface only, never by the
  loop. The list holds the environment of every iteration that found the flag set; the
  loop returns when the flag is found cleared, which is the end of the list.
\<close>

fun monitor_loop :: "tick_env list \<Rightarrow> monitor \<Rightarrow> monitor" where
  "monitor_loop [] s = s"
| "monitor_loop (env # envs) s = monitor_loop envs (loop_iteration env s)"

text \<open>
  The three assignments that open \<open>monitor_flight\<close>; \<open>t0\<close> is \<open>time.time()\<close> when the
  thread starts.
\<close>

definition monitor_flight_locals :: "real \<Rightarrow> monitor \<Rightarrow> monitor" where
  "monitor_flight_locals t0 s =
     s\<lparr>was_airborne := False, last_check_time := t0, recording_approach := False\<rparr>"

definition monitor_flight :: "real \<Rightarrow> tick_env list \<Rightarrow> monitor \<Rightarrow> monitor" where
  "monitor_flight t0 envs s = monitor_loop envs (monitor_flight_locals t0 s)"

section \<open>Observations on the trace\<close>

fun is_touchdown :: "event \<Rightarrow> bool" where
  "is_touchdown (LandingSignal d) = True"
| "is_touchdown e = False"

fun is_airborne :: "event \<Rightarrow> bool" where
  "is_airborne (LogSignal AircraftAirborne) = True"
| "is_airborne e = False"


definition touchdowns :: "event list \<Rightarrow> nat" where
  "touchdowns evs = length (filter is_touchdown evs)"

definition airbornes :: "event list \<Rightarrow> nat" where
  "airbornes evs = length (filter is_airborne evs)"


text \<open>
  The iterations of the loop, counted from \<open>i\<close>, in which a touchdown event is emitted.
\<close>

fun touchdown_ticks :: "nat \<Rightarrow> tick_env list \<Rightarrow> monitor \<Rightarrow> nat list" where
  "touchdown_ticks i [] s = []"
| "touchdown_ticks i (env # envs) s =
     (if touchdowns (trace (loop_iteration env s)) > touchdowns (trace s) then [i] else [])
       @ touchdown_ticks (Suc i) envs (loop_iteration env s)"

text \<open>
  The two tests that guard the pause command inside the waypoint loop: the waypoint's
  pause flag is set and the aircraft is less than 0.5 nm from it.
\<close>

definition pause_due :: "real \<Rightarrow> real \<Rightarrow> waypoint \<Rightarrow> bool" where
  "pause_due lat lon wp =
     (pause wp \<and>
      (case calculate_distance lat lon (wp_lat wp) (wp_lon wp) of
         Inl e \<Rightarrow> False
       | Inr distance \<Rightarrow> distance < 0.5))"

section \<open>Reference definitions, in the words of the specification\<close>

text \<open>
  The absolute altitude differences of consecutive points, and the mean of a list: the
  average descent rate of an approach is the mean of the differences of its altitudes.
\<close>

fun abs_steps :: "real list \<Rightarrow> real list" where
  "abs_steps (a # b # rest) = \<bar>b - a\<bar> # abs_steps (b # rest)"
| "abs_steps rest = []"

definition mean :: "real list \<Rightarrow> real" where
  "mean xs = sum_list xs / real (length xs)"

text \<open>
  A landing record with every touchdown value set, as the touchdown branch leaves it, and
  a history entry that the history table can show: \<open>update_history_table\<close> builds a table
  item from the timestamp and formats the position as numbers, so neither may be \<open>None\<close>.
  The refresh of the table is modelled for histories of such entries.
\<close>

definition complete :: "landing_data \<Rightarrow> bool" where
  "complete d =
     (touchdown_fpm d \<noteq> None \<and> touchdown_g d \<noteq> None \<and> touchdown_lat d \<noteq> None
      \<and> touchdown_lon d \<noteq> None \<and> timestamp d \<noteq> None)"

definition formattable :: "history_entry \<Rightarrow> bool" where
  "formattable e = (h_timestamp e \<noteq> None \<and> h_lat e \<noteq> None \<and> h_lon e \<noteq> None)"

text \<open>
  The on-ground reading of an iteration, \<open>None\<close> when the telemetry read failed.
\<close>

definition on_ground_reading :: "tick_env \<Rightarrow> real option" where
  "on_ground_reading env =
     (case reading env of Inl e \<Rightarrow> None | Inr x \<Rightarrow> Some (sim_on_ground x))"

text \<open>
  The position (counted from \<open>i\<close>) of the first on-ground reading, and of the first
  on-ground reading that comes after the first airborne reading.
\<close>

fun first_ground :: "nat \<Rightarrow> real option list \<Rightarrow> nat list" where
  "first_ground i [] = []"
| "first_ground i (r # rs) = (if r = Some 1 then [i] else first_ground (Suc i) rs)"

fun first_ground_after_air :: "nat \<Rightarrow> real option list \<Rightarrow> nat list" where
  "first_ground_after_air i [] = []"
| "first_ground_after_air i (r # rs) =
     (if r = Some 0 then first_ground (Suc i) rs else first_ground_after_air (Suc i) rs)"

section \<open>Example inputs\<close>

text \<open>The state after \<open>__init__\<close> with no history file and no flight plan.\<close>

definition initial_monitor :: monitor where
  "initial_monitor =
     \<lparr>waypoints = [], monitoring = False, landing_history = [], approach_path = [],
      landing_data = initial_landing_data, last_altitude = 0, was_airborne = False,
      last_check_time = 0, recording_approach = False, trace = []\<rparr>"

text \<open>
  A descending sample at 1000 ft with the given on-ground reading, and an iteration that
  reads it.
\<close>

definition descending_sample :: "real \<Rightarrow> sample" where
  "descending_sample g =
     \<lparr>plane_latitude = 0, plane_longitude = 0, plane_altitude = 1000,
      vertical_speed = - 200, sim_on_ground = g, g_force = 1,
      plane_heading_degrees_true = 0\<rparr>"

definition reads :: "real \<Rightarrow> tick_env" where
  "reads g = \<lparr>reading = Inr (descending_sample g), now = ''2024-01-01 00:00:00'',
              clock = 0, disk_ok = True\<rparr>"

text \<open>
  A state in flight with the latch clear and an approach path at the given altitudes.
\<close>

definition on_approach :: "real list \<Rightarrow> monitor" where
  "on_approach alts =
     initial_monitor
       \<lparr>monitoring := True, was_airborne := True, recording_approach := True,
        landing_data := initial_landing_data\<lparr>ld_on_ground := False\<rparr>,
        approach_path := map (\<lambda>alt. (0, 0, alt)) alts\<rparr>"

text \<open>
  A complete landing record with the given vertical speed, and the entry recorded for it.
\<close>

definition complete_landing :: "real \<Rightarrow> landing_data" where
  "complete_landing v =
     initial_landing_data
       \<lparr>touchdown_fpm := Some v, touchdown_g := Some 1, touchdown_lat := Some 0,
        touchdown_lon := Some 0, timestamp := Some ''2024-01-01 00:00:00''\<rparr>"

text \<open>
  A sample in level flight (or rolling, when the on-ground reading is 1), which adds no
  approach point, and an iteration that reads it.
\<close>

definition level_sample :: "real \<Rightarrow> sample" where
  "level_sample g =
     \<lparr>plane_latitude = 0, plane_longitude = 0, plane_altitude = 1000,
      vertical_speed = 0, sim_on_ground = g, g_force = 1,
      plane_heading_degrees_true = 0\<rparr>"

definition reads_level :: "real \<Rightarrow> tick_env" where
  "reads_level g = \<lparr>reading = Inr (level_sample g), now = ''2024-01-01 01:00:00'',
                    clock = 0, disk_ok = True\<rparr>"

text \<open>
  A sample descending at 200 fpm at the given altitude, and an iteration that reads it.
\<close>

definition approach_sample :: "real \<Rightarrow> real \<Rightarrow> sample" where
  "approach_sample alt g =
     \<lparr>plane_latitude = 0, plane_longitude = 0, plane_altitude = alt,
      vertical_speed = - 200, sim_on_ground = g, g_force = 1,
      plane_heading_degrees_true = 0\<rparr>"

definition reads_approach :: "real \<Rightarrow> real \<Rightarrow> tick_env" where
  "reads_approach alt g = \<lparr>reading = Inr (approach_sample alt g), now = ''2024-01-01 00:00:00'',
                           clock = 0, disk_ok = True\<rparr>"




text \<open>
  Two monitoring sessions after startup. In the first the aircraft takes off, descends
  through 2000, 1500 and 1000 ft and lands; monitoring is stopped and started again; in
  the second the aircraft takes off and lands from level flight, with no approach point.
\<close>

definition first_session :: monitor where
  "first_session =
     monitor_flight 0
       [reads_approach 2000 0, reads_approach 1500 0, reads_approach 1000 0, reads_approach 0 1]
       (toggle_monitoring initial_monitor)"

definition second_session :: monitor where
  "second_session =
     monitor_flight 0 [reads_level 0, reads_level 1]
       (toggle_monitoring (toggle_monitoring first_session))"

definition read_fails :: tick_env where
  "read_fails = \<lparr>reading = Inl (ReadError ''timeout''), now = ''2024-01-01 00:00:00'',
                 clock = 0, disk_ok = True\<rparr>"

section \<open>Properties of GeoMath\<close>

lemma haversine_a_bounds:
  "0 \<le> haversine_a lat1 lon1 lat2 lon2 \<and> haversine_a lat1 lon1 lat2 lon2 \<le> 1"
proof -
  define p where "p = radians lat1"
  define q where "q = radians lat2"
  define s where "s = (sin (radians (lon2 - lon1) / 2))\<^sup>2"
  define C where "C = cos (q - p)"
  define D where "D = cos (p + q)"
  have dl: "radians (lat2 - lat1) = q - p"
    by (simp add: radians_def p_def q_def left_diff_distrib)
  have s01: "0 \<le> s" "s \<le> 1"
    unfolding s_def by (simp_all add: abs_square_le_1)
  have C1: "- 1 \<le> C" "C \<le> 1" unfolding C_def by simp_all
  have D1: "- 1 \<le> D" "D \<le> 1" unfolding D_def by simp_all
  have "2 * ((q - p) / 2) = q - p" by simp
  then have "cos (q - p) = 1 - 2 * (sin ((q - p) / 2))\<^sup>2"
    using cos_double_sin [of "(q - p) / 2"] by (simp only:)
  then have half: "(sin ((q - p) / 2))\<^sup>2 = (1 - C) / 2"
    by (simp add: C_def)
  have prod: "cos p * cos q = (C + D) / 2"
    by (simp add: C_def D_def cos_add cos_diff)
  have "haversine_a lat1 lon1 lat2 lon2 = (1 - C) / 2 + (C + D) / 2 * s"
    unfolding haversine_a_def Let_def dl
    by (simp add: half prod p_def [symmetric] q_def [symmetric] s_def [symmetric])
  also have "\<dots> = (1 - (1 - s) * C + s * D) / 2"
    by (simp add: field_simps)
  finally have a: "haversine_a lat1 lon1 lat2 lon2 = (1 - (1 - s) * C + s * D) / 2" .
  have u1: "(1 - s) * C \<le> 1 - s" using s01 C1 by (simp add: mult_left_le)
  have u2: "- (1 - s) \<le> (1 - s) * C" using s01 C1
    by (metis diff_ge_0_iff_ge mult.right_neutral mult_left_mono mult_minus_right)
  have u3: "s * D \<le> s" using s01 D1 by (simp add: mult_left_le)
  have u4: "- s \<le> s * D" using s01 D1
    by (metis mult.right_neutral mult_left_mono mult_minus_right)
  show ?thesis unfolding a using u1 u2 u3 u4 by simp
qed

text \<open>Neither the square root nor the arc sine is ever applied outside its domain.\<close>

lemma calculate_distance_value:
  "calculate_distance lat1 lon1 lat2 lon2 = Inr (great_circle_nm lat1 lon1 lat2 lon2)"
proof -
  have a: "0 \<le> haversine_a lat1 lon1 lat2 lon2" "haversine_a lat1 lon1 lat2 lon2 \<le> 1"
    using haversine_a_bounds by simp_all
  have "0 \<le> sqrt (haversine_a lat1 lon1 lat2 lon2)" using a by simp
  then have r0: "\<not> sqrt (haversine_a lat1 lon1 lat2 lon2) < - 1" by linarith
  have "sqrt (haversine_a lat1 lon1 lat2 lon2) \<le> 1" using a by simp
  then have r1: "\<not> 1 < sqrt (haversine_a lat1 lon1 lat2 lon2)" by linarith
  have a0: "\<not> haversine_a lat1 lon1 lat2 lon2 < 0" using a by linarith
  have a1: "\<not> 1 < haversine_a lat1 lon1 lat2 lon2" using a by linarith
  show ?thesis
    by (simp add: calculate_distance_def distance_of_a_def great_circle_nm_def Let_def
          py_sqrt_def py_asin_def a0 a1 r0 r1)
qed

lemma haversine_a_self: "haversine_a lat lon lat lon = 0"
  by (simp add: haversine_a_def radians_def)

lemma haversine_a_sym: "haversine_a lat1 lon1 lat2 lon2 = haversine_a lat2 lon2 lat1 lon1"
proof -
  have m: "radians (- x) = - radians x" for x
    by (simp add: radians_def)
  have 1: "radians (lat2 - lat1) / 2 = - (radians (lat1 - lat2) / 2)"
    using m [of "lat1 - lat2"] by simp
  have 2: "radians (lon2 - lon1) / 2 = - (radians (lon1 - lon2) / 2)"
    using m [of "lon1 - lon2"] by simp
  show ?thesis
    unfolding haversine_a_def Let_def 1 2 sin_minus by (simp add: mult.commute)
qed

lemma great_circle_nm_self: "great_circle_nm lat lon lat lon = 0"
  by (simp add: great_circle_nm_def haversine_a_self)

lemma calculate_distance_self: "calculate_distance lat lon lat lon = Inr 0"
  by (simp add: calculate_distance_value great_circle_nm_self)

lemma great_circle_nm_meridian:
  assumes "\<bar>lat2 - lat1\<bar> \<le> 180"
  shows "great_circle_nm lat1 lon lat2 lon = 3440.065 * radians \<bar>lat2 - lat1\<bar>"
proof -
  define y where "y = radians (lat2 - lat1) / 2"
  have r: "radians \<bar>lat2 - lat1\<bar> = \<bar>radians (lat2 - lat1)\<bar>"
    by (simp add: radians_def abs_mult)
  have "\<bar>lat2 - lat1\<bar> * (pi / 180) \<le> 180 * (pi / 180)"
    using assms by (intro mult_right_mono) simp_all
  then have "\<bar>radians (lat2 - lat1)\<bar> \<le> pi"
    by (simp add: radians_def abs_mult)
  then have y: "\<bar>y\<bar> \<le> pi / 2" by (simp add: y_def)
  have a: "haversine_a lat1 lon lat2 lon = (sin y)\<^sup>2"
    by (simp add: haversine_a_def y_def radians_def)
  have s: "\<bar>sin y\<bar> = sin \<bar>y\<bar>"
  proof (cases "0 \<le> y")
    case True
    then have "0 \<le> sin y" using y pi_ge_zero by (intro sin_ge_zero) linarith+
    then show ?thesis using True by simp
  next
    case False
    then have "0 \<le> sin (- y)" using y pi_ge_zero by (intro sin_ge_zero) linarith+
    then show ?thesis using False by simp
  qed
  have "arcsin (sin \<bar>y\<bar>) = \<bar>y\<bar>"
    using y pi_ge_zero by (intro arcsin_sin) linarith+
  then have "arcsin (sqrt (haversine_a lat1 lon lat2 lon)) = \<bar>y\<bar>"
    by (simp add: a s)
  then show ?thesis
    by (simp add: great_circle_nm_def r y_def)
qed

text \<open>
  Computed exactly, the argument of the square root lies between 0 and 1, so neither domain
  error is reachable; the distance from a point to itself is 0, and the distance is the
  same in both directions.
\<close>

lemma calculate_distance_exact:
  "(\<exists>d. calculate_distance lat1 lon1 lat2 lon2 = Inr d)
   \<and> calculate_distance lat1 lon1 lat1 lon1 = Inr 0
   \<and> calculate_distance lat1 lon1 lat2 lon2 = calculate_distance lat2 lon2 lat1 lon1"
proof (intro conjI)
  show "\<exists>d. calculate_distance lat1 lon1 lat2 lon2 = Inr d"
    by (intro exI) (rule calculate_distance_value)
  show "calculate_distance lat1 lon1 lat1 lon1 = Inr 0"
    by (rule calculate_distance_self)
  show "calculate_distance lat1 lon1 lat2 lon2 = calculate_distance lat2 lon2 lat1 lon1"
    using haversine_a_sym [of lat1 lon1 lat2 lon2]
    by (simp add: calculate_distance_value great_circle_nm_def)
qed

text \<open>
  C9. The distance function is the last two lines of the source applied to the haversine
  term. When that term comes out above 1, which binary64 arithmetic produces for
  near-antipodal points (1 + 2^-51 at 57.7, 0.0 and -57.6999999, 180.0), the arc sine is
  outside its domain and the function raises \<open>ValueError\<close>; it is not total.
\<close>

theorem calculate_distance_domain_error:
  "calculate_distance lat1 lon1 lat2 lon2 = distance_of_a (haversine_a lat1 lon1 lat2 lon2)
   \<and> distance_of_a (1 + 1 / 2 ^ 51) = Inl ValueError"
proof
  show "calculate_distance lat1 lon1 lat2 lon2 = distance_of_a (haversine_a lat1 lon1 lat2 lon2)"
    by (simp add: calculate_distance_def)
  have "(1::real) < 1 + 1 / 2 ^ 51" by simp
  then have "(1::real) < sqrt (1 + 1 / 2 ^ 51)"
    using real_sqrt_gt_1_iff by blast
  then show "distance_of_a (1 + 1 / 2 ^ 51) = Inl ValueError"
    by (simp add: distance_of_a_def py_sqrt_def py_asin_def)
qed

section \<open>Properties of LandingRater\<close>

lemma fpm_score_cases:
  "(\<bar>v\<bar> < 100 \<longrightarrow> fpm_score v = 100)
   \<and> (100 \<le> \<bar>v\<bar> \<and> \<bar>v\<bar> < 200 \<longrightarrow> fpm_score v = 85)
   \<and> (200 \<le> \<bar>v\<bar> \<and> \<bar>v\<bar> < 300 \<longrightarrow> fpm_score v = 70)
   \<and> (300 \<le> \<bar>v\<bar> \<and> \<bar>v\<bar> < 400 \<longrightarrow> fpm_score v = 50)
   \<and> (400 \<le> \<bar>v\<bar> \<and> \<bar>v\<bar> < 600 \<longrightarrow> fpm_score v = 30)
   \<and> (600 \<le> \<bar>v\<bar> \<longrightarrow> fpm_score v = 10)"
  by (simp add: fpm_score_def Let_def)

lemma g_score_cases:
  "(g < 1.3 \<longrightarrow> g_score g = 100)
   \<and> (1.3 \<le> g \<and> g < 1.5 \<longrightarrow> g_score g = 85)
   \<and> (1.5 \<le> g \<and> g < 1.8 \<longrightarrow> g_score g = 70)
   \<and> (1.8 \<le> g \<and> g < 2.0 \<longrightarrow> g_score g = 50)
   \<and> (2.0 \<le> g \<and> g < 2.5 \<longrightarrow> g_score g = 30)
   \<and> (2.5 \<le> g \<longrightarrow> g_score g = 10)"
  by (simp add: g_score_def)

lemma rating_tiers:
  "(95 \<le> combined_score v g \<longrightarrow>
      get_landing_rating v g = (stars 5, ''PERFECT - Butter Landing!'', ''#a6e3a1''))
   \<and> (80 \<le> combined_score v g \<and> combined_score v g < 95 \<longrightarrow>
      get_landing_rating v g = (stars 4, ''Excellent Landing'', ''#a6e3a1''))
   \<and> (65 \<le> combined_score v g \<and> combined_score v g < 80 \<longrightarrow>
      get_landing_rating v g = (stars 3, ''Good Landing'', ''#f9e2af''))
   \<and> (45 \<le> combined_score v g \<and> combined_score v g < 65 \<longrightarrow>
      get_landing_rating v g = (stars 2, ''Acceptable Landing'', ''#fab387''))
   \<and> (combined_score v g < 45 \<longrightarrow>
      get_landing_rating v g = (stars 1, ''Hard Landing - Check Aircraft!'', ''#f38ba8''))"
  by (simp add: get_landing_rating_def)

lemma rating_examples:
  "fpm_score 50 = 100 \<and> g_score 1.0 = 100 \<and> combined_score 50 1.0 = 100
   \<and> get_landing_rating 50 1.0 = (stars 5, ''PERFECT - Butter Landing!'', ''#a6e3a1'')
   \<and> fpm_score 350 = 50 \<and> g_score 1.6 = 70 \<and> combined_score 350 1.6 = 58
   \<and> get_landing_rating 350 1.6 = (stars 2, ''Acceptable Landing'', ''#fab387'')"
  by (simp add: get_landing_rating_def combined_score_def fpm_score_def g_score_def)


text \<open>
  C2. \<open>get_landing_rating\<close> scores the absolute vertical speed and the g-force by
  half-open breakpoints, weighs the two scores 0.6 and 0.4, and maps the combined score to
  five tiers at 95, 80, 65 and 45; a touchdown at 50 fpm and 1.0 g scores 100 (five
  stars), one at 350 fpm and 1.6 g scores 58 (two stars, acceptable).
\<close>

theorem get_landing_rating_breakpoints:
  "((\<bar>v\<bar> < 100 \<longrightarrow> fpm_score v = 100)
   \<and> (100 \<le> \<bar>v\<bar> \<and> \<bar>v\<bar> < 200 \<longrightarrow> fpm_score v = 85)
   \<and> (200 \<le> \<bar>v\<bar> \<and> \<bar>v\<bar> < 300 \<longrightarrow> fpm_score v = 70)
   \<and> (300 \<le> \<bar>v\<bar> \<and> \<bar>v\<bar> < 400 \<longrightarrow> fpm_score v = 50)
   \<and> (400 \<le> \<bar>v\<bar> \<and> \<bar>v\<bar> < 600 \<longrightarrow> fpm_score v = 30)
   \<and> (600 \<le> \<bar>v\<bar> \<longrightarrow> fpm_score v = 10))
  \<and> ((g < 1.3 \<longrightarrow> g_score g = 100)
   \<and> (1.3 \<le> g \<and> g < 1.5 \<longrightarrow> g_score g = 85)
   \<and> (1.5 \<le> g \<and> g < 1.8 \<longrightarrow> g_score g = 70)
   \<and> (1.8 \<le> g \<and> g < 2.0 \<longrightarrow> g_score g = 50)
   \<and> (2.0 \<le> g \<and> g < 2.5 \<longrightarrow> g_score g = 30)
   \<and> (2.5 \<le> g \<longrightarrow> g_score g = 10))
  \<and> combined_score v g = 0.6 * fpm_score v + 0.4 * g_score g
  \<and> ((95 \<le> combined_score v g \<longrightarrow>
      get_landing_rating v g = (stars 5, ''PERFECT - Butter Landing!'', ''#a6e3a1''))
   \<and> (80 \<le> combined_score v g \<and> combined_score v g < 95 \<longrightarrow>
      get_landing_rating v g = (stars 4, ''Excellent Landing'', ''#a6e3a1''))
   \<and> (65 \<le> combined_score v g \<and> combined_score v g < 80 \<longrightarrow>
      get_landing_rating v g = (stars 3, ''Good Landing'', ''#f9e2af''))
   \<and> (45 \<le> combined_score v g \<and> combined_score v g < 65 \<longrightarrow>
      get_landing_rating v g = (stars 2, ''Acceptable Landing'', ''#fab387''))
   \<and> (combined_score v g < 45 \<longrightarrow>
      get_landing_rating v g = (stars 1, ''Hard Landing - Check Aircraft!'', ''#f38ba8'')))
  \<and> (fpm_score 50 = 100 \<and> g_score 1.0 = 100 \<and> combined_score 50 1.0 = 100
   \<and> get_landing_rating 50 1.0 = (stars 5, ''PERFECT - Butter Landing!'', ''#a6e3a1'')
   \<and> fpm_score 350 = 50 \<and> g_score 1.6 = 70 \<and> combined_score 350 1.6 = 58
   \<and> get_landing_rating 350 1.6 = (stars 2, ''Acceptable Landing'', ''#fab387''))"
proof -
  have c: "combined_score v g = 0.6 * fpm_score v + 0.4 * g_score g"
    by (simp add: combined_score_def)
  show ?thesis
    by (rule conjI [OF fpm_score_cases conjI [OF g_score_cases
          conjI [OF c conjI [OF rating_tiers rating_examples]]]])
qed

theorem get_landing_rating_breakpoints_witness:
  "fpm_score 250 = 70 \<and> g_score 1.4 = 85 \<and> combined_score 250 1.4 = 76
   \<and> get_landing_rating 250 1.4 = (stars 3, ''Good Landing'', ''#f9e2af'')"
proof -
  note T = get_landing_rating_breakpoints [of 250 "1.4"]
  have f: "fpm_score 250 = 70" using T by simp
  have g: "g_score 1.4 = 85" using T by simp
  have c: "combined_score 250 1.4 = 76"
    using T f g by simp
  have "get_landing_rating 250 1.4 = (stars 3, ''Good Landing'', ''#f9e2af'')"
    using T c by simp
  with f g c show ?thesis by simp
qed

section \<open>Loading the history\<close>

text \<open>
  C7. Loading the history never raises: it returns the empty sequence when the file does
  not exist, cannot be opened, or does not parse; any other result is the content of a
  file that parsed.
\<close>

theorem load_landing_history_never_raises:
  "(\<exists>v. load_landing_history f = Inr v)
   \<and> load_landing_history None = Inr (JArray [])
   \<and> load_landing_history (Some OpenFails) = Inr (JArray [])
   \<and> load_landing_history (Some ParseFails) = Inr (JArray [])
   \<and> (load_landing_history f \<noteq> Inr (JArray []) \<longrightarrow>
        (\<exists>v. f = Some (Parses v) \<and> v \<noteq> JArray [] \<and> load_landing_history f = Inr v))"
  by (cases f; cases "the f")
     (simp_all add: load_landing_history_def json_load_file_def)

theorem load_landing_history_never_raises_witness:
  "load_landing_history (Some (Parses (JArray [JString ''x'']))) \<noteq> Inr (JArray [])
   \<and> (\<exists>v. Some (Parses (JArray [JString ''x''])) = Some (Parses v) \<and> v \<noteq> JArray []
          \<and> load_landing_history (Some (Parses (JArray [JString ''x'']))) = Inr v)"
proof -
  have h: "load_landing_history (Some (Parses (JArray [JString ''x'']))) \<noteq> Inr (JArray [])"
    by (simp add: load_landing_history_def json_load_file_def)
  with load_landing_history_never_raises [of "Some (Parses (JArray [JString ''x'']))"]
  show ?thesis by blast
qed

section \<open>Counting events\<close>

lemma touchdowns_simps:
  "touchdowns [] = 0"
  "touchdowns (e # es) = (if is_touchdown e then 1 else 0) + touchdowns es"
  "touchdowns (xs @ ys) = touchdowns xs + touchdowns ys"
  by (simp_all add: touchdowns_def)

lemma airbornes_simps:
  "airbornes [] = 0"
  "airbornes (e # es) = (if is_airborne e then 1 else 0) + airbornes es"
  "airbornes (xs @ ys) = airbornes xs + airbornes ys"
  by (simp_all add: airbornes_def)

section \<open>The waypoint loop\<close>

lemma check_waypoints_value:
  "check_waypoints lat lon wps =
     (Completed,
      map (\<lambda>wp. if pause_due lat lon wp then wp\<lparr>pause := False\<rparr> else wp) wps,
      concat (map (\<lambda>wp. if pause_due lat lon wp
                          then [SimEvent ''PAUSE_SET'' 1, LogSignal (ReachedPaused (wp_id wp)),
                                WaypointSignal]
                          else []) wps))"
  by (induction wps) (simp_all add: pause_due_def calculate_distance_value)


lemma check_waypoints_events_quiet:
  "touchdowns (snd (snd (check_waypoints lat lon wps))) = 0
   \<and> airbornes (snd (snd (check_waypoints lat lon wps))) = 0"
  unfolding check_waypoints_value
  by (induction wps) (simp_all add: touchdowns_simps airbornes_simps)

section \<open>The steps of one iteration\<close>

lemma and_then_completed: "fst r = Completed \<Longrightarrow> and_then r f = f (snd r)"
  by (cases r) (simp add: and_then_def)

lemma approach_stats_value:
  "approach_stats x s =
     (Completed,
      if length (approach_path s) > 1 then
        s\<lparr>landing_data := (landing_data s)
            \<lparr>approach_distance :=
               Some (great_circle_nm (fst (hd (approach_path s))) (fst (snd (hd (approach_path s))))
                       (plane_latitude x) (plane_longitude x)),
             avg_descent :=
               Some (sum_list (descent_steps (approach_path s))
                       / real (length (approach_path s) - 1))\<rparr>\<rparr>
      else s)"
  by (cases "approach_path s")
     (simp_all add: approach_stats_def calculate_distance_value Let_def)

lemma save_landing_to_history_value:
  "touchdown_fpm data = Some fpm \<Longrightarrow> touchdown_g data = Some g \<Longrightarrow>
   save_landing_to_history ok data s =
     (Completed,
      s\<lparr>landing_history := take 100 (entry_of data # landing_history s),
        trace := trace s @
          [if ok then HistoryFileWritten (take 100 (entry_of data # landing_history s))
           else LogSignal FailedToSaveHistory,
           HistoryTableUpdated (take 100 (entry_of data # landing_history s))]\<rparr>)"
  by (cases "get_landing_rating fpm g")
     (simp add: save_landing_to_history_def entry_of_def Let_def update_history_table_def
        save_landing_history_def emit_def)

lemma check_landing_idle:
  assumes "\<not> (sim_on_ground x = 1 \<and> was_airborne s \<and> \<not> ld_on_ground (landing_data s))"
  shows "check_landing env x s = (Completed, s)"
  unfolding check_landing_def using assms by (simp only: if_False)

lemma check_landing_touchdown:
  fixes env :: tick_env and x :: sample and s :: monitor
  assumes "sim_on_ground x = 1" and "was_airborne s" and "\<not> ld_on_ground (landing_data s)"
  defines "base \<equiv> (landing_data s)
                    \<lparr>touchdown_fpm := Some (vertical_speed x),
                     touchdown_g := Some (g_force x),
                     touchdown_lat := Some (plane_latitude x),
                     touchdown_lon := Some (plane_longitude x),
                     ld_on_ground := True,
                     timestamp := Some (now env)\<rparr>"
  defines "d \<equiv> (if length (approach_path s) > 1 then
                   base\<lparr>approach_distance :=
                          Some (great_circle_nm (fst (hd (approach_path s)))
                                  (fst (snd (hd (approach_path s))))
                                  (plane_latitude x) (plane_longitude x)),
                        avg_descent :=
                          Some (sum_list (descent_steps (approach_path s))
                                  / real (length (approach_path s) - 1))\<rparr>
                 else base)"
  shows "check_landing env x s =
     (Completed,
      s\<lparr>landing_data := d,
        landing_history := take 100 (entry_of d # landing_history s),
        recording_approach := False,
        trace := trace s @
          [if disk_ok env then HistoryFileWritten (take 100 (entry_of d # landing_history s))
           else LogSignal FailedToSaveHistory,
           HistoryTableUpdated (take 100 (entry_of d # landing_history s)),
           LandingSignal d,
           LogSignal (Landing (vertical_speed x) (g_force x)),
           AddLandingMarker (plane_latitude x) (plane_longitude x)
             (vertical_speed x) (g_force x)]\<rparr>)"
proof -
  have f: "touchdown_fpm d = Some (vertical_speed x)" and g: "touchdown_g d = Some (g_force x)"
    by (simp_all add: d_def base_def)
  let ?s1 = "s\<lparr>landing_data := base\<rparr>"
  have stats: "approach_stats x ?s1 = (Completed, s\<lparr>landing_data := d\<rparr>)"
    by (simp add: approach_stats_value d_def)
  have save: "save_landing_to_history (disk_ok env) d (s\<lparr>landing_data := d\<rparr>) =
     (Completed,
      s\<lparr>landing_data := d,
        landing_history := take 100 (entry_of d # landing_history s),
        trace := trace s @
          [if disk_ok env then HistoryFileWritten (take 100 (entry_of d # landing_history s))
           else LogSignal FailedToSaveHistory,
           HistoryTableUpdated (take 100 (entry_of d # landing_history s))]\<rparr>)"
    by (simp add: save_landing_to_history_value [OF f g])
  have "check_landing env x s =
     and_then (approach_stats x ?s1) (\<lambda>s2.
       and_then (save_landing_to_history (disk_ok env) (landing_data s2) s2) (\<lambda>s3.
         (Completed,
          (emit (AddLandingMarker (plane_latitude x) (plane_longitude x)
                   (vertical_speed x) (g_force x))
            (emit (LogSignal (Landing (vertical_speed x) (g_force x)))
              (emit (LandingSignal (landing_data s3)) s3)))
          \<lparr>recording_approach := False\<rparr>)))"
    using assms(1-3) by (simp add: check_landing_def Let_def base_def)
  also have "\<dots> = and_then (save_landing_to_history (disk_ok env) d (s\<lparr>landing_data := d\<rparr>)) (\<lambda>s3.
         (Completed,
          (emit (AddLandingMarker (plane_latitude x) (plane_longitude x)
                   (vertical_speed x) (g_force x))
            (emit (LogSignal (Landing (vertical_speed x) (g_force x)))
              (emit (LandingSignal (landing_data s3)) s3)))
          \<lparr>recording_approach := False\<rparr>))"
    by (simp add: stats and_then_def)
  also have "\<dots> = (Completed,
      s\<lparr>landing_data := d,
        landing_history := take 100 (entry_of d # landing_history s),
        recording_approach := False,
        trace := trace s @
          [if disk_ok env then HistoryFileWritten (take 100 (entry_of d # landing_history s))
           else LogSignal FailedToSaveHistory,
           HistoryTableUpdated (take 100 (entry_of d # landing_history s)),
           LandingSignal d,
           LogSignal (Landing (vertical_speed x) (g_force x)),
           AddLandingMarker (plane_latitude x) (plane_longitude x)
             (vertical_speed x) (g_force x)]\<rparr>)"
    by (simp add: save and_then_def emit_def)
  finally show ?thesis .
qed

lemma check_landing_completed: "fst (check_landing env x s) = Completed"
  by (cases "sim_on_ground x = 1 \<and> was_airborne s \<and> \<not> ld_on_ground (landing_data s)")
     (simp_all add: check_landing_idle check_landing_touchdown)

lemma check_landing_fields:
  shows "was_airborne (snd (check_landing env x s)) = was_airborne s" (is ?A)
    and "approach_path (snd (check_landing env x s)) = approach_path s" (is ?B)
    and "waypoints (snd (check_landing env x s)) = waypoints s" (is ?C)
    and "last_check_time (snd (check_landing env x s)) = last_check_time s" (is ?D)
    and "ld_on_ground (landing_data (snd (check_landing env x s))) =
           (ld_on_ground (landing_data s) \<or> (sim_on_ground x = 1 \<and> was_airborne s))" (is ?E)
    and "touchdowns (trace (snd (check_landing env x s))) =
           touchdowns (trace s) +
           (if sim_on_ground x = 1 \<and> was_airborne s \<and> \<not> ld_on_ground (landing_data s)
            then 1 else 0)" (is ?F)
    and "airbornes (trace (snd (check_landing env x s))) = airbornes (trace s)" (is ?G)
proof -
  have "?A \<and> ?B \<and> ?C \<and> ?D \<and> ?E \<and> ?F \<and> ?G"
  proof (cases "sim_on_ground x = 1 \<and> was_airborne s \<and> \<not> ld_on_ground (landing_data s)")
    case True
    then have td: "sim_on_ground x = 1" "was_airborne s" "\<not> ld_on_ground (landing_data s)"
      by simp_all
    show ?thesis
      by (simp add: check_landing_touchdown [OF td] td touchdowns_simps airbornes_simps)
  next
    case False
    have v: "check_landing env x s = (Completed, s)"
      by (rule check_landing_idle [OF False])
    show ?thesis unfolding v using False by auto
  qed
  then show ?A and ?B and ?C and ?D and ?E and ?F and ?G by simp_all
qed

lemma check_proximity_value:
  "check_proximity env x s =
     (Completed,
      if clock env - last_check_time s > 2 then
        s\<lparr>waypoints :=
            map (\<lambda>wp. if pause_due (plane_latitude x) (plane_longitude x) wp
                       then wp\<lparr>pause := False\<rparr> else wp) (waypoints s),
          last_check_time := clock env,
          trace := trace s @
            snd (snd (check_waypoints (plane_latitude x) (plane_longitude x) (waypoints s)))\<rparr>
      else s)"
  by (simp add: check_proximity_def Let_def check_waypoints_value)

lemma check_proximity_fields:
  "was_airborne (snd (check_proximity env x s)) = was_airborne s"
  "approach_path (snd (check_proximity env x s)) = approach_path s"
  "landing_data (snd (check_proximity env x s)) = landing_data s"
  "landing_history (snd (check_proximity env x s)) = landing_history s"
  "recording_approach (snd (check_proximity env x s)) = recording_approach s"
  "touchdowns (trace (snd (check_proximity env x s))) = touchdowns (trace s)"
  "airbornes (trace (snd (check_proximity env x s))) = airbornes (trace s)"
  by (simp_all add: check_proximity_value touchdowns_simps airbornes_simps
        check_waypoints_events_quiet)

lemma check_proximity_completed: "fst (check_proximity env x s) = Completed"
  by (simp add: check_proximity_value)

lemma loop_iteration_read:
  "reading env = Inr x \<Longrightarrow>
   loop_iteration env s =
     emit (Sleep 1)
       ((snd (check_proximity env x
          (snd (check_landing env x
             (record_approach x
                (check_takeoff x
                   (emit (PositionSignal (plane_latitude x) (plane_longitude x)
                            (plane_heading_degrees_true x) (plane_altitude x)) s)))))))
        \<lparr>last_altitude := plane_altitude x\<rparr>)"
  by (simp add: loop_iteration_def tick_body_def Let_def
        and_then_completed [OF check_landing_completed]
        and_then_completed [OF check_proximity_completed])

lemma loop_iteration_read_fails:
  "reading env = Inl e \<Longrightarrow>
   loop_iteration env s = s\<lparr>trace := trace s @ [LogSignal (MonitoringError e), Sleep 2]\<rparr>"
  by (simp add: loop_iteration_def tick_body_def emit_def)

lemma check_takeoff_fields:
  "was_airborne (check_takeoff x s) = (was_airborne s \<or> sim_on_ground x = 0)"
  "ld_on_ground (landing_data (check_takeoff x s)) =
     (ld_on_ground (landing_data s) \<and> \<not> (sim_on_ground x = 0 \<and> \<not> was_airborne s))"
  "touchdowns (trace (check_takeoff x s)) = touchdowns (trace s)"
  "airbornes (trace (check_takeoff x s)) =
     airbornes (trace s) + (if sim_on_ground x = 0 \<and> \<not> was_airborne s then 1 else 0)"
  "approach_path (check_takeoff x s) = approach_path s"
  "recording_approach (check_takeoff x s) = recording_approach s"
  by (auto simp add: check_takeoff_def emit_def touchdowns_simps airbornes_simps)

lemma record_approach_fields:
  "was_airborne (record_approach x s) = was_airborne s"
  "landing_data (record_approach x s) = landing_data s"
  "touchdowns (trace (record_approach x s)) = touchdowns (trace s)"
  "airbornes (trace (record_approach x s)) = airbornes (trace s)"
  "sim_on_ground x \<noteq> 0 \<Longrightarrow> approach_path (record_approach x s) = approach_path s"
  "sim_on_ground x \<noteq> 0 \<Longrightarrow> record_approach x s = s"
  by (simp_all add: record_approach_def emit_def add_approach_point_def Let_def
        touchdowns_simps airbornes_simps)

lemma emit_fields:
  "was_airborne (emit e s) = was_airborne s"
  "landing_data (emit e s) = landing_data s"
  "approach_path (emit e s) = approach_path s"
  "recording_approach (emit e s) = recording_approach s"
  "landing_history (emit e s) = landing_history s"
  "waypoints (emit e s) = waypoints s"
  "last_check_time (emit e s) = last_check_time s"
  "trace (emit e s) = trace s @ [e]"
  by (simp_all add: emit_def)

lemma loop_iteration_flags:
  assumes "reading env = Inr x"
  shows "was_airborne (loop_iteration env s) = (was_airborne s \<or> sim_on_ground x = 0)"
    and "ld_on_ground (landing_data (loop_iteration env s)) =
           (if sim_on_ground x = 0 \<and> \<not> was_airborne s then False
            else (ld_on_ground (landing_data s) \<or> (sim_on_ground x = 1 \<and> was_airborne s)))"
    and "touchdowns (trace (loop_iteration env s)) =
           touchdowns (trace s) +
           (if sim_on_ground x = 1 \<and> was_airborne s \<and> \<not> ld_on_ground (landing_data s)
            then 1 else 0)"
    and "airbornes (trace (loop_iteration env s)) =
           airbornes (trace s) + (if sim_on_ground x = 0 \<and> \<not> was_airborne s then 1 else 0)"
  by (auto simp add: loop_iteration_read [OF assms] emit_fields check_proximity_fields
        check_landing_fields record_approach_fields check_takeoff_fields
        touchdowns_simps airbornes_simps)

section \<open>One iteration, whatever the telemetry read gives\<close>

lemma loop_iteration_was_airborne:
  "was_airborne s \<Longrightarrow> was_airborne (loop_iteration env s)"
  by (cases "reading env") (simp_all add: loop_iteration_read_fails loop_iteration_flags)

lemma loop_iteration_latch_stays:
  "was_airborne s \<Longrightarrow> ld_on_ground (landing_data s) \<Longrightarrow>
   ld_on_ground (landing_data (loop_iteration env s))"
  by (cases "reading env") (simp_all add: loop_iteration_read_fails loop_iteration_flags)

lemma loop_iteration_airbornes:
  "airbornes (trace (loop_iteration env s)) =
     airbornes (trace s) +
     (if \<not> was_airborne s \<and> was_airborne (loop_iteration env s) then 1 else 0)"
  by (cases "reading env")
     (simp_all add: loop_iteration_read_fails loop_iteration_flags airbornes_simps)

lemma loop_iteration_touchdowns:
  "touchdowns (trace (loop_iteration env s)) =
     touchdowns (trace s) +
     (if was_airborne s \<and> \<not> ld_on_ground (landing_data s)
         \<and> ld_on_ground (landing_data (loop_iteration env s)) then 1 else 0)"
  by (cases "reading env")
     (auto simp add: loop_iteration_read_fails loop_iteration_flags touchdowns_simps)

section \<open>The loop\<close>

lemma monitor_loop_airborne_stays:
  "was_airborne s \<Longrightarrow>
   was_airborne (monitor_loop envs s)
   \<and> airbornes (trace (monitor_loop envs s)) = airbornes (trace s)"
proof (induction envs arbitrary: s)
  case Nil
  then show ?case by simp
next
  case (Cons env envs)
  have "was_airborne (loop_iteration env s)"
    using Cons.prems by (rule loop_iteration_was_airborne)
  from Cons.IH [OF this] show ?case
    using Cons.prems by (simp add: loop_iteration_airbornes)
qed

lemma monitor_loop_airbornes_le:
  "airbornes (trace (monitor_loop envs s)) \<le> airbornes (trace s) + 1"
proof (induction envs arbitrary: s)
  case Nil
  then show ?case by simp
next
  case (Cons env envs)
  show ?case
  proof (cases "was_airborne s")
    case True
    then show ?thesis
      using monitor_loop_airborne_stays [of s "env # envs"] by simp
  next
    case False
    show ?thesis
    proof (cases "was_airborne (loop_iteration env s)")
      case True
      then show ?thesis
        using monitor_loop_airborne_stays [of "loop_iteration env s" envs] False
        by (simp add: loop_iteration_airbornes)
    next
      case nf: False
      then show ?thesis
        using Cons.IH [of "loop_iteration env s"] False
        by (simp add: loop_iteration_airbornes)
    qed
  qed
qed

lemma monitor_loop_latched:
  "was_airborne s \<Longrightarrow> ld_on_ground (landing_data s) \<Longrightarrow>
   touchdowns (trace (monitor_loop envs s)) = touchdowns (trace s)"
proof (induction envs arbitrary: s)
  case Nil
  then show ?case by simp
next
  case (Cons env envs)
  have "touchdowns (trace (monitor_loop envs (loop_iteration env s))) =
        touchdowns (trace (loop_iteration env s))"
    using Cons.prems
    by (intro Cons.IH loop_iteration_was_airborne loop_iteration_latch_stays)
  then show ?case using Cons.prems by (simp add: loop_iteration_touchdowns)
qed

lemma monitor_loop_armed:
  "was_airborne s \<Longrightarrow>
   touchdowns (trace (monitor_loop envs s)) \<le> touchdowns (trace s) + 1"
proof (induction envs arbitrary: s)
  case Nil
  then show ?case by simp
next
  case (Cons env envs)
  let ?s' = "loop_iteration env s"
  have wa: "was_airborne ?s'"
    using Cons.prems by (rule loop_iteration_was_airborne)
  show ?case
  proof (cases "ld_on_ground (landing_data ?s')")
    case True
    have "touchdowns (trace (monitor_loop envs ?s')) = touchdowns (trace ?s')"
      using wa True by (rule monitor_loop_latched)
    then show ?thesis by (simp add: loop_iteration_touchdowns)
  next
    case False
    then show ?thesis
      using Cons.IH [OF wa] by (simp add: loop_iteration_touchdowns)
  qed
qed

lemma monitor_loop_touchdowns_le:
  "touchdowns (trace (monitor_loop envs s)) \<le> touchdowns (trace s) + 1"
proof (induction envs arbitrary: s)
  case Nil
  then show ?case by simp
next
  case (Cons env envs)
  show ?case
  proof (cases "was_airborne s")
    case True
    then show ?thesis by (rule monitor_loop_armed)
  next
    case False
    then show ?thesis
      using Cons.IH [of "loop_iteration env s"] by (simp add: loop_iteration_touchdowns)
  qed
qed

section \<open>The iterations that emit a touchdown\<close>

lemma touchdown_ticks_latched:
  "was_airborne s \<Longrightarrow> ld_on_ground (landing_data s) \<Longrightarrow> touchdown_ticks i envs s = []"
proof (induction envs arbitrary: s i)
  case Nil
  then show ?case by simp
next
  case (Cons env envs)
  have "touchdown_ticks (Suc i) envs (loop_iteration env s) = []"
    using Cons.prems
    by (intro Cons.IH loop_iteration_was_airborne loop_iteration_latch_stays)
  then show ?case using Cons.prems by (simp add: loop_iteration_touchdowns)
qed

lemma touchdown_ticks_armed:
  "was_airborne s \<Longrightarrow> \<not> ld_on_ground (landing_data s) \<Longrightarrow>
   touchdown_ticks i envs s = first_ground i (map on_ground_reading envs)"
proof (induction envs arbitrary: s i)
  case Nil
  then show ?case by simp
next
  case (Cons env envs)
  show ?case
  proof (cases "reading env")
    case (Inl e)
    then have og: "on_ground_reading env = None"
      by (simp add: on_ground_reading_def)
    show ?thesis
      using Cons.prems Cons.IH [of "loop_iteration env s" "Suc i"]
      by (simp add: loop_iteration_read_fails [OF Inl] og touchdowns_simps)
  next
    case (Inr x)
    then have og: "on_ground_reading env = Some (sim_on_ground x)"
      by (simp add: on_ground_reading_def)
    show ?thesis
    proof (cases "sim_on_ground x = 1")
      case True
      have "touchdown_ticks (Suc i) envs (loop_iteration env s) = []"
        using Cons.prems True
        by (intro touchdown_ticks_latched) (simp_all add: loop_iteration_flags [OF Inr])
      then show ?thesis
        using Cons.prems True Inr
        by (simp add: loop_iteration_flags [OF Inr] og)
    next
      case False
      have "touchdown_ticks (Suc i) envs (loop_iteration env s) =
            first_ground (Suc i) (map on_ground_reading envs)"
        using Cons.prems False
        by (intro Cons.IH) (simp_all add: loop_iteration_flags [OF Inr])
      then show ?thesis
        using Cons.prems False Inr
        by (simp add: loop_iteration_flags [OF Inr] og)
    qed
  qed
qed

lemma touchdown_ticks_fresh:
  "\<not> was_airborne s \<Longrightarrow>
   touchdown_ticks i envs s = first_ground_after_air i (map on_ground_reading envs)"
proof (induction envs arbitrary: s i)
  case Nil
  then show ?case by simp
next
  case (Cons env envs)
  show ?case
  proof (cases "reading env")
    case (Inl e)
    then have og: "on_ground_reading env = None"
      by (simp add: on_ground_reading_def)
    show ?thesis
      using Cons.prems Cons.IH [of "loop_iteration env s" "Suc i"]
      by (simp add: loop_iteration_read_fails [OF Inl] og touchdowns_simps)
  next
    case (Inr x)
    then have og: "on_ground_reading env = Some (sim_on_ground x)"
      by (simp add: on_ground_reading_def)
    show ?thesis
    proof (cases "sim_on_ground x = 0")
      case True
      have "touchdown_ticks (Suc i) envs (loop_iteration env s) =
            first_ground (Suc i) (map on_ground_reading envs)"
        using Cons.prems True
        by (intro touchdown_ticks_armed) (simp_all add: loop_iteration_flags [OF Inr])
      then show ?thesis
        using Cons.prems True Inr
        by (simp add: loop_iteration_flags [OF Inr] og)
    next
      case False
      have "touchdown_ticks (Suc i) envs (loop_iteration env s) =
            first_ground_after_air (Suc i) (map on_ground_reading envs)"
        using Cons.prems False
        by (intro Cons.IH) (simp_all add: loop_iteration_flags [OF Inr])
      then show ?thesis
        using Cons.prems False Inr
        by (simp add: loop_iteration_flags [OF Inr] og)
    qed
  qed
qed

lemma touchdowns_count_ticks:
  "touchdowns (trace (monitor_loop envs s)) =
     touchdowns (trace s) + length (touchdown_ticks i envs s)"
proof (induction envs arbitrary: s i)
  case Nil
  then show ?case by simp
next
  case (Cons env envs)
  show ?case
    using Cons.IH [of "loop_iteration env s" "Suc i"]
    by (simp add: loop_iteration_touchdowns)
qed

lemma first_ground_length: "length (first_ground i rs) \<le> Suc 0"
  by (induction rs arbitrary: i) simp_all

lemma first_ground_after_air_length: "length (first_ground_after_air i rs) \<le> Suc 0"
  by (induction rs arbitrary: i) (simp_all add: first_ground_length)

lemma monitor_flight_locals_fields:
  "was_airborne (monitor_flight_locals t0 s) = False"
  "recording_approach (monitor_flight_locals t0 s) = False"
  "last_check_time (monitor_flight_locals t0 s) = t0"
  "trace (monitor_flight_locals t0 s) = trace s"
  "approach_path (monitor_flight_locals t0 s) = approach_path s"
  "landing_data (monitor_flight_locals t0 s) = landing_data s"
  "landing_history (monitor_flight_locals t0 s) = landing_history s"
  "waypoints (monitor_flight_locals t0 s) = waypoints s"
  by (simp_all add: monitor_flight_locals_def)

lemma reads_fields:
  "reading (reads g) = Inr (descending_sample g)"
  "on_ground_reading (reads g) = Some g"
  "sim_on_ground (descending_sample g) = g"
  "plane_altitude (descending_sample g) = 1000"
  "vertical_speed (descending_sample g) = - 200"
  "plane_latitude (descending_sample g) = 0"
  "plane_longitude (descending_sample g) = 0"
  by (simp_all add: reads_def descending_sample_def on_ground_reading_def)

text \<open>
  C1. In a fresh monitoring session the touchdown event is emitted in one iteration
  only: the first one with an on-ground reading after the first airborne reading, when
  there is one, and in no other. The latch set by that touchdown is cleared only by the
  takeoff branch, which \<open>was_airborne\<close> closes for the rest of the session. For on-ground
  readings 0,0,1,1,0,1 that is one touchdown event, at the 3rd sample.
\<close>

theorem touchdown_once_after_first_takeoff:
  "touchdown_ticks 1 envs (monitor_flight_locals t0 s) =
     first_ground_after_air 1 (map on_ground_reading envs)
   \<and> length (touchdown_ticks 1 envs (monitor_flight_locals t0 s)) \<le> 1
   \<and> touchdowns (trace (monitor_flight t0 envs s)) =
       touchdowns (trace s) + length (touchdown_ticks 1 envs (monitor_flight_locals t0 s))
   \<and> (map on_ground_reading envs = [Some 0, Some 0, Some 1, Some 1, Some 0, Some 1] \<longrightarrow>
        touchdown_ticks 1 envs (monitor_flight_locals t0 s) = [3]
        \<and> touchdowns (trace (monitor_flight t0 envs s)) = touchdowns (trace s) + 1)"
proof -
  let ?s0 = "monitor_flight_locals t0 s"
  have fresh: "\<not> was_airborne ?s0"
    by (simp add: monitor_flight_locals_fields)
  have ticks: "touchdown_ticks 1 envs ?s0 = first_ground_after_air 1 (map on_ground_reading envs)"
    using fresh by (rule touchdown_ticks_fresh)
  have len: "length (touchdown_ticks 1 envs ?s0) \<le> 1"
    unfolding ticks using first_ground_after_air_length [of 1 "map on_ground_reading envs"]
    by simp
  have count: "touchdowns (trace (monitor_flight t0 envs s)) =
       touchdowns (trace s) + length (touchdown_ticks 1 envs ?s0)"
    using touchdowns_count_ticks [of envs ?s0 1]
    by (simp add: monitor_flight_def monitor_flight_locals_fields)
  have six: "touchdown_ticks 1 envs ?s0 = [3]
        \<and> touchdowns (trace (monitor_flight t0 envs s)) = touchdowns (trace s) + 1"
    if "map on_ground_reading envs = [Some 0, Some 0, Some 1, Some 1, Some 0, Some 1]"
    unfolding count unfolding ticks that by simp
  show ?thesis using ticks len count six by blast
qed

theorem touchdown_once_after_first_takeoff_witness:
  "map on_ground_reading (map reads [0, 0, 1, 1, 0, 1]) =
     [Some 0, Some 0, Some 1, Some 1, Some 0, Some 1]
   \<and> touchdown_ticks 1 (map reads [0, 0, 1, 1, 0, 1])
       (monitor_flight_locals 0 (toggle_monitoring initial_monitor)) = [3]"
proof -
  have h: "map on_ground_reading (map reads [0, 0, 1, 1, 0, 1]) =
     [Some 0, Some 0, Some 1, Some 1, Some 0, Some 1]"
    by (simp add: reads_fields)
  from touchdown_once_after_first_takeoff
         [of "map reads [0, 0, 1, 1, 0, 1]" 0 "toggle_monitoring initial_monitor"] h
  show ?thesis by blast
qed

theorem touchdown_latch_counterexample:
  "touchdown_ticks 1 (map reads [0, 0, 1, 1, 0, 1])
     (monitor_flight_locals 0 (toggle_monitoring initial_monitor)) = [3]
   \<and> touchdown_ticks 1 (map reads [0, 0, 1, 1, 0, 1])
       (monitor_flight_locals 0 (toggle_monitoring initial_monitor)) \<noteq> [3, 6]
   \<and> touchdowns (trace (monitor_flight 0 (map reads [0, 0, 1, 1, 0, 1])
        (toggle_monitoring initial_monitor))) = 1"
proof -
  let ?s0 = "monitor_flight_locals 0 (toggle_monitoring initial_monitor)"
  let ?envs = "map reads [0, 0, 1, 1, 0, 1]"
  have "\<not> was_airborne ?s0"
    by (simp add: monitor_flight_locals_fields)
  then have "touchdown_ticks 1 ?envs ?s0 = first_ground_after_air 1 (map on_ground_reading ?envs)"
    by (rule touchdown_ticks_fresh)
  then have ticks: "touchdown_ticks 1 ?envs ?s0 = [3]"
    by (simp add: reads_fields)
  have "trace (toggle_monitoring initial_monitor) =
          [LogSignal StartedMonitoring, ClearBreadcrumbs]"
    by (simp add: toggle_monitoring_def initial_monitor_def emit_def)
  then have z: "touchdowns (trace ?s0) = 0"
    by (simp add: monitor_flight_locals_fields touchdowns_simps)
  have c: "touchdowns (trace (monitor_loop ?envs ?s0)) =
           touchdowns (trace ?s0) + length (touchdown_ticks 1 ?envs ?s0)"
    by (rule touchdowns_count_ticks)
  have "touchdowns (trace (monitor_flight 0 ?envs (toggle_monitoring initial_monitor))) = 1"
    unfolding monitor_flight_def c ticks z by simp
  with ticks show ?thesis by simp
qed

text \<open>
  C10. Whatever the environment does during one run of \<open>monitor_flight\<close> (read failures
  included), the run emits at most one airborne event and at most one touchdown event;
  once \<open>was_airborne\<close> is set the loop never clears it and never emits the airborne event
  again.
\<close>

theorem one_takeoff_one_touchdown_per_session:
  "airbornes (trace (monitor_flight t0 envs s)) \<le> airbornes (trace s) + 1
   \<and> touchdowns (trace (monitor_flight t0 envs s)) \<le> touchdowns (trace s) + 1
   \<and> (was_airborne s \<longrightarrow>
        was_airborne (monitor_loop envs s)
        \<and> airbornes (trace (monitor_loop envs s)) = airbornes (trace s))"
proof (intro conjI impI)
  show "airbornes (trace (monitor_flight t0 envs s)) \<le> airbornes (trace s) + 1"
    using monitor_loop_airbornes_le [of envs "monitor_flight_locals t0 s"]
    by (simp add: monitor_flight_def monitor_flight_locals_fields)
  show "touchdowns (trace (monitor_flight t0 envs s)) \<le> touchdowns (trace s) + 1"
    using monitor_loop_touchdowns_le [of envs "monitor_flight_locals t0 s"]
    by (simp add: monitor_flight_def monitor_flight_locals_fields)
next
  assume "was_airborne s"
  then show "was_airborne (monitor_loop envs s)"
    and "airbornes (trace (monitor_loop envs s)) = airbornes (trace s)"
    using monitor_loop_airborne_stays [of s envs] by simp_all
qed

theorem one_takeoff_one_touchdown_per_session_witness:
  "was_airborne (initial_monitor\<lparr>was_airborne := True\<rparr>)
   \<and> was_airborne (monitor_loop (map reads [0, 1, 0, 1]) (initial_monitor\<lparr>was_airborne := True\<rparr>))
   \<and> airbornes (trace (monitor_loop (map reads [0, 1, 0, 1])
        (initial_monitor\<lparr>was_airborne := True\<rparr>))) = 0
   \<and> airbornes (trace (monitor_flight 0 (map reads [0, 1, 0, 1]) initial_monitor)) \<le> 1
   \<and> touchdowns (trace (monitor_flight 0 (map reads [0, 1, 0, 1]) initial_monitor)) \<le> 1"
proof -
  have h: "was_airborne (initial_monitor\<lparr>was_airborne := True\<rparr>)" by simp
  have t: "trace (initial_monitor\<lparr>was_airborne := True\<rparr>) = []" "trace initial_monitor = []"
    by (simp_all add: initial_monitor_def)
  from one_takeoff_one_touchdown_per_session
         [of 0 "map reads [0, 1, 0, 1]" "initial_monitor\<lparr>was_airborne := True\<rparr>"] h
       one_takeoff_one_touchdown_per_session [of 0 "map reads [0, 1, 0, 1]" initial_monitor]
  show ?thesis by (simp add: t airbornes_simps touchdowns_simps)
qed

text \<open>
  C8. When a telemetry read raises, the iteration does nothing but log the warning and
  sleep 2 seconds (an iteration whose reads succeed ends with a sleep of 1 second): the
  detector state, the approach path, the latch, the history and the waypoints are as
  before, and the loop goes on with the next iteration.
\<close>

theorem read_failure_skips_iteration:
  assumes "reading env = Inl e"
  shows "loop_iteration env s = s\<lparr>trace := trace s @ [LogSignal (MonitoringError e), Sleep 2]\<rparr>
   \<and> was_airborne (loop_iteration env s) = was_airborne s
   \<and> recording_approach (loop_iteration env s) = recording_approach s
   \<and> last_check_time (loop_iteration env s) = last_check_time s
   \<and> landing_data (loop_iteration env s) = landing_data s
   \<and> approach_path (loop_iteration env s) = approach_path s
   \<and> landing_history (loop_iteration env s) = landing_history s
   \<and> waypoints (loop_iteration env s) = waypoints s
   \<and> monitor_loop (env # envs) s =
       monitor_loop envs (s\<lparr>trace := trace s @ [LogSignal (MonitoringError e), Sleep 2]\<rparr>)
   \<and> (\<forall>env' x. reading env' = Inr x \<longrightarrow> last (trace (loop_iteration env' s)) = Sleep 1)"
proof -
  have v: "loop_iteration env s =
           s\<lparr>trace := trace s @ [LogSignal (MonitoringError e), Sleep 2]\<rparr>"
    using assms by (rule loop_iteration_read_fails)
  have ok: "last (trace (loop_iteration env' s)) = Sleep 1" if "reading env' = Inr x" for env' x
    by (simp add: loop_iteration_read [OF that] emit_fields)
  show ?thesis using ok by (simp add: v)
qed

theorem read_failure_skips_iteration_witness:
  "reading read_fails = Inl (ReadError ''timeout'')
   \<and> loop_iteration read_fails initial_monitor =
       initial_monitor\<lparr>trace := [LogSignal (MonitoringError (ReadError ''timeout'')), Sleep 2]\<rparr>
   \<and> monitor_loop [read_fails, reads 0] initial_monitor =
       monitor_loop [reads 0]
         (initial_monitor\<lparr>trace := [LogSignal (MonitoringError (ReadError ''timeout'')), Sleep 2]\<rparr>)
   \<and> last (trace (loop_iteration (reads 0) initial_monitor)) = Sleep 1"
proof -
  have h: "reading read_fails = Inl (ReadError ''timeout'')"
    by (simp add: read_fails_def)
  have t: "trace initial_monitor = []"
    by (simp add: initial_monitor_def)
  from read_failure_skips_iteration [OF h, of initial_monitor "[reads 0]"] h t
  show ?thesis by (simp add: reads_fields)
qed

section \<open>Waypoint proximity\<close>





















section \<open>Recording landings\<close>

lemma take_append_take: "take n (xs @ take n ys) = take n (xs @ ys)"
  by (simp add: min_def)

lemma save_all_value:
  "(\<forall>(ok, d)\<in>set ds. touchdown_fpm d \<noteq> None \<and> touchdown_g d \<noteq> None) \<Longrightarrow>
   fst (save_all ds s) = Completed
   \<and> (ds \<noteq> [] \<longrightarrow>
        landing_history (snd (save_all ds s)) =
          take 100 (rev (map (\<lambda>(ok, d). entry_of d) ds) @ landing_history s))
   \<and> (ds = [] \<longrightarrow> landing_history (snd (save_all ds s)) = landing_history s)"
proof (induction ds arbitrary: s)
  case Nil
  then show ?case by simp
next
  case (Cons a ds)
  obtain ok d where a: "a = (ok, d)" by (cases a)
  from Cons.prems a obtain fpm g where f: "touchdown_fpm d = Some fpm" and g: "touchdown_g d = Some g"
    by auto
  let ?s1 = "snd (save_landing_to_history ok d s)"
  have c: "fst (save_landing_to_history ok d s) = Completed"
    and h: "landing_history ?s1 = take 100 (entry_of d # landing_history s)"
    by (simp_all add: save_landing_to_history_value [OF f g])
  have step: "save_all (a # ds) s = save_all ds ?s1"
    by (simp add: a and_then_completed [OF c])
  have rest: "\<forall>(ok, d)\<in>set ds. touchdown_fpm d \<noteq> None \<and> touchdown_g d \<noteq> None"
    using Cons.prems by simp
  note IH = Cons.IH [OF rest, of ?s1]
  show ?case
  proof (cases "ds = []")
    case True
    then show ?thesis using c h by (simp add: a and_then_completed [OF c])
  next
    case False
    have "landing_history (snd (save_all ds ?s1)) =
            take 100 (rev (map (\<lambda>(ok, d). entry_of d) ds) @ landing_history ?s1)"
      using IH False by blast
    also have "\<dots> = take 100 (rev (map (\<lambda>(ok, d). entry_of d) ds)
                           @ take 100 (entry_of d # landing_history s))"
      by (simp only: h)
    also have "\<dots> = take 100 (rev (map (\<lambda>(ok, d). entry_of d) ds)
                           @ (entry_of d # landing_history s))"
      by (rule take_append_take)
    also have "\<dots> = take 100 (rev (map (\<lambda>(ok, d). entry_of d) (a # ds)) @ landing_history s)"
      by (simp add: a)
    finally show ?thesis
      unfolding step using IH by simp
  qed
qed

lemma entry_of_formattable: "complete d \<Longrightarrow> formattable (entry_of d)"
  by (simp add: complete_def formattable_def entry_of_def)

text \<open>
  C3. Recording a complete landing puts its entry at index 0 and keeps the first 100
  elements; from any starting history that the table can show, 101 recordings leave
  exactly the 100 most recent entries, newest first. Recording and clearing keep the
  history within 100 entries and keep it showable.
\<close>

theorem history_newest_first_capped:
  assumes "\<forall>(ok, d)\<in>set ds. complete d"
    and "\<forall>e\<in>set (landing_history s). formattable e"
  shows "fst (save_all ds s) = Completed
   \<and> (complete data \<longrightarrow>
        save_all [(ok, data)] s = save_landing_to_history ok data s
        \<and> landing_history (snd (save_landing_to_history ok data s)) =
            take 100 (entry_of data # landing_history s)
        \<and> length (landing_history (snd (save_landing_to_history ok data s))) \<le> 100)
   \<and> (ds \<noteq> [] \<longrightarrow>
        landing_history (snd (save_all ds s)) =
          take 100 (rev (map (\<lambda>(ok, d). entry_of d) ds) @ landing_history s)
        \<and> length (landing_history (snd (save_all ds s))) \<le> 100)
   \<and> (length ds = 101 \<longrightarrow>
        landing_history (snd (save_all ds s)) = take 100 (rev (map (\<lambda>(ok, d). entry_of d) ds))
        \<and> length (landing_history (snd (save_all ds s))) = 100)
   \<and> (length (landing_history s) \<le> 100 \<longrightarrow>
        length (landing_history (snd (save_all ds s))) \<le> 100)
   \<and> (\<forall>e\<in>set (landing_history (snd (save_all ds s))). formattable e)
   \<and> landing_history (clear_history True ok s) = []
   \<and> landing_history (clear_history False ok s) = landing_history s"
proof -
  have set: "\<forall>(ok, d)\<in>set ds. touchdown_fpm d \<noteq> None \<and> touchdown_g d \<noteq> None"
    using assms(1) by (auto simp add: complete_def)
  note v = save_all_value [OF set, of s]
  have one: "save_all [(ok, data)] s = save_landing_to_history ok data s
        \<and> landing_history (snd (save_landing_to_history ok data s)) =
            take 100 (entry_of data # landing_history s)
        \<and> length (landing_history (snd (save_landing_to_history ok data s))) \<le> 100"
    if "complete data"
  proof -
    from that obtain fpm g where f: "touchdown_fpm data = Some fpm" and g: "touchdown_g data = Some g"
      by (auto simp add: complete_def)
    show ?thesis
      by (simp add: save_landing_to_history_value [OF f g] and_then_def)
  qed
  have many: "landing_history (snd (save_all ds s)) =
          take 100 (rev (map (\<lambda>(ok, d). entry_of d) ds) @ landing_history s)
        \<and> length (landing_history (snd (save_all ds s))) \<le> 100" if "ds \<noteq> []"
    using v that by simp
  have full: "landing_history (snd (save_all ds s)) = take 100 (rev (map (\<lambda>(ok, d). entry_of d) ds))
        \<and> length (landing_history (snd (save_all ds s))) = 100" if "length ds = 101"
  proof -
    from that have ne: "ds \<noteq> []" by auto
    show ?thesis using v ne that by simp
  qed
  have inv: "length (landing_history (snd (save_all ds s))) \<le> 100"
    if "length (landing_history s) \<le> 100"
    using v that by (cases "ds = []") simp_all
  have shown: "\<forall>e\<in>set (landing_history (snd (save_all ds s))). formattable e"
  proof (cases "ds = []")
    case True
    then show ?thesis using assms(2) by simp
  next
    case False
    have new: "\<forall>e\<in>set (rev (map (\<lambda>(ok, d). entry_of d) ds)). formattable e"
      using assms(1) by (auto simp add: entry_of_formattable)
    have "set (landing_history (snd (save_all ds s))) \<subseteq>
            set (rev (map (\<lambda>(ok, d). entry_of d) ds) @ landing_history s)"
      using many [OF False] set_take_subset by metis
    then show ?thesis using new assms(2) by auto
  qed
  have clr: "landing_history (clear_history True ok s) = []"
    "landing_history (clear_history False ok s) = landing_history s"
    by (simp_all add: clear_history_def update_history_table_def save_landing_history_def emit_def)
  show ?thesis using v one many full inv shown clr by blast
qed

theorem history_newest_first_capped_witness:
  "length (map (\<lambda>i. (True, complete_landing (real i))) [0..<101]) = 101
   \<and> length (landing_history
        (snd (save_all (map (\<lambda>i. (True, complete_landing (real i))) [0..<101])
                (initial_monitor\<lparr>landing_history := [entry_of (complete_landing 7)]\<rparr>)))) = 100
   \<and> landing_history
        (snd (save_all [(True, complete_landing 1), (False, complete_landing 2)]
                (initial_monitor\<lparr>landing_history := [entry_of (complete_landing 7)]\<rparr>))) =
       [entry_of (complete_landing 2), entry_of (complete_landing 1),
        entry_of (complete_landing 7)]"
proof -
  let ?ds = "map (\<lambda>i. (True, complete_landing (real i))) [0..<101]"
  let ?two = "[(True, complete_landing 1), (False, complete_landing 2)]"
  let ?s = "initial_monitor\<lparr>landing_history := [entry_of (complete_landing 7)]\<rparr>"
  have c: "complete (complete_landing v)" for v
    by (simp add: complete_def complete_landing_def initial_landing_data_def)
  have h: "\<forall>(ok, d)\<in>set ?ds. complete d"
    by (simp add: c)
  have h2: "\<forall>(ok, d)\<in>set ?two. complete d"
    by (simp add: c)
  have f: "\<forall>e\<in>set (landing_history ?s). formattable e"
    by (simp add: entry_of_formattable c)
  have l: "length ?ds = 101" by simp
  have a: "length (landing_history (snd (save_all ?ds ?s))) = 100"
    using history_newest_first_capped [OF h f] l by blast
  have "?two \<noteq> []" by simp
  with history_newest_first_capped [OF h2 f]
  have "landing_history (snd (save_all ?two ?s)) =
          take 100 (rev (map (\<lambda>(ok, d). entry_of d) ?two) @ landing_history ?s)"
    by blast
  then have b: "landing_history (snd (save_all ?two ?s)) =
       [entry_of (complete_landing 2), entry_of (complete_landing 1),
        entry_of (complete_landing 7)]"
    by simp
  from l a b show ?thesis by blast
qed

section \<open>Touchdown\<close>

lemma abs_steps_length: "length (abs_steps xs) = length xs - 1"
  by (induction xs rule: abs_steps.induct) simp_all

lemma abs_steps_nth:
  "i < length xs - 1 \<Longrightarrow> abs_steps xs ! i = \<bar>xs ! Suc i - xs ! i\<bar>"
proof (induction xs arbitrary: i rule: abs_steps.induct)
  case (1 a b rest)
  then show ?case by (cases i) simp_all
qed simp_all

lemma descent_steps_abs_steps: "descent_steps path = abs_steps (map (\<lambda>p. snd (snd p)) path)"
proof (rule nth_equalityI)
  show "length (descent_steps path) = length (abs_steps (map (\<lambda>p. snd (snd p)) path))"
    by (simp add: descent_steps_def abs_steps_length)
next
  fix i
  assume "i < length (descent_steps path)"
  then have i: "i < length path - 1"
    by (simp add: descent_steps_def)
  then show "descent_steps path ! i = abs_steps (map (\<lambda>p. snd (snd p)) path) ! i"
    by (simp add: descent_steps_def abs_steps_nth)
qed

lemma check_proximity_trace:
  "set (trace s) \<subseteq> set (trace (snd (check_proximity env x s)))"
  by (simp add: check_proximity_value)

lemma loop_iteration_touchdown:
  fixes env :: tick_env and x :: sample and s :: monitor
  assumes r: "reading env = Inr x" and g: "sim_on_ground x = 1"
    and wa: "was_airborne s" and latch: "\<not> ld_on_ground (landing_data s)"
  defines "base \<equiv> (landing_data s)
                    \<lparr>touchdown_fpm := Some (vertical_speed x),
                     touchdown_g := Some (g_force x),
                     touchdown_lat := Some (plane_latitude x),
                     touchdown_lon := Some (plane_longitude x),
                     ld_on_ground := True,
                     timestamp := Some (now env)\<rparr>"
  shows "landing_data (loop_iteration env s) =
           (if length (approach_path s) > 1 then
              base\<lparr>approach_distance :=
                     Some (great_circle_nm (fst (hd (approach_path s)))
                             (fst (snd (hd (approach_path s))))
                             (plane_latitude x) (plane_longitude x)),
                   avg_descent :=
                     Some (sum_list (descent_steps (approach_path s))
                             / real (length (approach_path s) - 1))\<rparr>
            else base)"
    and "approach_path (loop_iteration env s) = approach_path s"
    and "recording_approach (loop_iteration env s) = False"
    and "LandingSignal (landing_data (loop_iteration env s)) \<in> set (trace (loop_iteration env s))"
    and "landing_history (loop_iteration env s) =
           take 100 (entry_of (landing_data (loop_iteration env s)) # landing_history s)"
proof -
  let ?s1 = "emit (PositionSignal (plane_latitude x) (plane_longitude x)
                     (plane_heading_degrees_true x) (plane_altitude x)) s"
  have g0: "sim_on_ground x \<noteq> 0" using g by simp
  have t: "check_takeoff x ?s1 = ?s1"
    using g0 by (simp add: check_takeoff_def)
  have a: "record_approach x ?s1 = ?s1"
    using g0 by (simp add: record_approach_fields)
  have td: "was_airborne ?s1" "\<not> ld_on_ground (landing_data ?s1)"
    using wa latch by (simp_all add: emit_fields)
  note L = check_landing_touchdown [OF g td, of env]
  let ?s4 = "snd (check_landing env x ?s1)"
  have it: "loop_iteration env s =
        emit (Sleep 1) ((snd (check_proximity env x ?s4))\<lparr>last_altitude := plane_altitude x\<rparr>)"
    by (simp only: loop_iteration_read [OF r] t a)
  show "landing_data (loop_iteration env s) =
           (if length (approach_path s) > 1 then
              base\<lparr>approach_distance :=
                     Some (great_circle_nm (fst (hd (approach_path s)))
                             (fst (snd (hd (approach_path s))))
                             (plane_latitude x) (plane_longitude x)),
                   avg_descent :=
                     Some (sum_list (descent_steps (approach_path s))
                             / real (length (approach_path s) - 1))\<rparr>
            else base)"
    by (simp add: it emit_fields check_proximity_fields L base_def)
  show "approach_path (loop_iteration env s) = approach_path s"
    by (simp add: it emit_fields check_proximity_fields check_landing_fields)
  show "recording_approach (loop_iteration env s) = False"
    by (simp add: it emit_fields check_proximity_fields L)
  have "LandingSignal (landing_data ?s4) \<in> set (trace ?s4)"
    by (simp add: L)
  then have "LandingSignal (landing_data ?s4) \<in> set (trace (snd (check_proximity env x ?s4)))"
    using check_proximity_trace [of ?s4 env x] by blast
  then show "LandingSignal (landing_data (loop_iteration env s)) \<in> set (trace (loop_iteration env s))"
    by (simp add: it emit_fields check_proximity_fields)
  show "landing_history (loop_iteration env s) =
           take 100 (entry_of (landing_data (loop_iteration env s)) # landing_history s)"
    by (simp add: it emit_fields check_proximity_fields L)
qed

lemma loop_iteration_path_airborne:
  assumes "reading env = Inr x" and "sim_on_ground x = 0"
  shows "approach_path (loop_iteration env s) =
           approach_path s @
           (if plane_altitude x < 3000 \<and> vertical_speed x < - 100
            then [(plane_latitude x, plane_longitude x, plane_altitude x)] else [])"
  using assms(2)
  by (simp add: loop_iteration_read [OF assms(1)] emit_fields check_proximity_fields
        check_landing_fields record_approach_def check_takeoff_fields add_approach_point_def
        Let_def)

lemma loop_iteration_path_ground:
  assumes "reading env = Inr x" and "sim_on_ground x \<noteq> 0"
  shows "approach_path (loop_iteration env s) = approach_path s"
  using assms(2)
  by (simp add: loop_iteration_read [OF assms(1)] emit_fields check_proximity_fields
        check_landing_fields record_approach_fields check_takeoff_fields)

lemma monitoring_steps:
  "monitoring (emit e s) = monitoring s"
  "monitoring (check_takeoff x s) = monitoring s"
  "monitoring (record_approach x s) = monitoring s"
  "monitoring (snd (check_proximity env x s)) = monitoring s"
  by (simp_all add: emit_def check_takeoff_def record_approach_def add_approach_point_def
        Let_def check_proximity_value)

lemma check_landing_monitoring: "monitoring (snd (check_landing env x s)) = monitoring s"
proof (cases "sim_on_ground x = 1 \<and> was_airborne s \<and> \<not> ld_on_ground (landing_data s)")
  case True
  then have td: "sim_on_ground x = 1" "was_airborne s" "\<not> ld_on_ground (landing_data s)"
    by simp_all
  show ?thesis by (simp add: check_landing_touchdown [OF td])
next
  case False
  show ?thesis by (simp add: check_landing_idle [OF False])
qed

lemma monitoring_kept: "monitoring (loop_iteration env s) = monitoring s"
proof (cases "reading env")
  case (Inl e)
  then show ?thesis by (simp add: loop_iteration_read_fails)
next
  case (Inr x)
  show ?thesis
    by (simp add: loop_iteration_read [OF Inr] monitoring_steps check_landing_monitoring)
qed

lemma monitor_loop_monitoring: "monitoring (monitor_loop envs s) = monitoring s"
  by (induction envs arbitrary: s) (simp_all add: monitoring_kept)

lemma loop_iteration_data_airborne:
  assumes "reading env = Inr x" and "sim_on_ground x = 0"
  shows "landing_data (loop_iteration env s) =
           (if was_airborne s then landing_data s
            else (landing_data s)\<lparr>ld_on_ground := False\<rparr>)"
proof -
  let ?s1 = "emit (PositionSignal (plane_latitude x) (plane_longitude x)
                        (plane_heading_degrees_true x) (plane_altitude x)) s"
  let ?s3 = "record_approach x (check_takeoff x ?s1)"
  have idle: "\<not> (sim_on_ground x = 1 \<and> was_airborne ?s3 \<and> \<not> ld_on_ground (landing_data ?s3))"
    using assms(2) by simp
  have "landing_data (loop_iteration env s) = landing_data ?s3"
    by (simp add: loop_iteration_read [OF assms(1)] emit_fields check_proximity_fields
          check_landing_idle [OF idle])
  also have "\<dots> = landing_data (check_takeoff x ?s1)"
    by (simp add: record_approach_fields)
  also have "\<dots> = (if was_airborne s then landing_data s
            else (landing_data s)\<lparr>ld_on_ground := False\<rparr>)"
    using assms(2) by (simp add: check_takeoff_def emit_def)
  finally show ?thesis .
qed

text \<open>
  C5. At a detected touchdown with at least two approach points, the landing record handed
  out with the landing signal holds the distance computed from the first approach point
  to the touchdown position and the mean absolute altitude difference of consecutive
  approach points (500 for the altitudes 2000, 1500, 1000). With fewer than two points the
  touchdown assigns neither statistic: both are as they were before, so unset when they
  were unset.
\<close>

theorem approach_statistics_at_touchdown:
  assumes "reading env = Inr x" and "sim_on_ground x = 1"
    and "was_airborne s" and "\<not> ld_on_ground (landing_data s)"
  shows "(\<forall>lat0 lon0 alt0 p1 rest d.
            approach_path s = (lat0, lon0, alt0) # p1 # rest
            \<and> calculate_distance lat0 lon0 (plane_latitude x) (plane_longitude x) = Inr d \<longrightarrow>
            approach_distance (landing_data (loop_iteration env s)) = Some d
            \<and> avg_descent (landing_data (loop_iteration env s)) =
                Some (mean (abs_steps (map (\<lambda>p. snd (snd p)) (approach_path s)))))
   \<and> (length (approach_path s) < 2 \<longrightarrow>
        approach_distance (landing_data (loop_iteration env s)) =
          approach_distance (landing_data s)
        \<and> avg_descent (landing_data (loop_iteration env s)) = avg_descent (landing_data s))
   \<and> (length (approach_path s) < 2 \<and> approach_distance (landing_data s) = None
        \<and> avg_descent (landing_data s) = None \<longrightarrow>
        approach_distance (landing_data (loop_iteration env s)) = None
        \<and> avg_descent (landing_data (loop_iteration env s)) = None)
   \<and> touchdown_lat (landing_data (loop_iteration env s)) = Some (plane_latitude x)
   \<and> touchdown_lon (landing_data (loop_iteration env s)) = Some (plane_longitude x)
   \<and> LandingSignal (landing_data (loop_iteration env s)) \<in> set (trace (loop_iteration env s))
   \<and> mean (abs_steps [2000, 1500, 1000]) = 500"
proof -
  note T = loop_iteration_touchdown [OF assms]
  have two: "approach_distance (landing_data (loop_iteration env s)) = Some d
            \<and> avg_descent (landing_data (loop_iteration env s)) =
                Some (mean (abs_steps (map (\<lambda>p. snd (snd p)) (approach_path s))))"
    if p: "approach_path s = (lat0, lon0, alt0) # p1 # rest
           \<and> calculate_distance lat0 lon0 (plane_latitude x) (plane_longitude x) = Inr d"
    for lat0 lon0 alt0 p1 rest d
  proof -
    have path: "approach_path s = (lat0, lon0, alt0) # p1 # rest" using p by simp
    have dist: "d = great_circle_nm lat0 lon0 (plane_latitude x) (plane_longitude x)"
      using p by (simp add: calculate_distance_value)
    have n: "length (approach_path s) > 1" using path by simp
    have m: "length (abs_steps (map (\<lambda>p. snd (snd p)) (approach_path s))) =
             length (approach_path s) - 1"
      by (simp add: abs_steps_length)
    have d: "approach_distance (landing_data (loop_iteration env s)) = Some d"
      using n by (simp add: T(1) path dist)
    have "avg_descent (landing_data (loop_iteration env s)) =
          Some (sum_list (descent_steps (approach_path s)) / real (length (approach_path s) - 1))"
      using n by (simp add: T(1))
    then have a: "avg_descent (landing_data (loop_iteration env s)) =
          Some (mean (abs_steps (map (\<lambda>p. snd (snd p)) (approach_path s))))"
      unfolding mean_def m by (simp only: descent_steps_abs_steps)
    from d a show ?thesis by simp
  qed
  have few: "approach_distance (landing_data (loop_iteration env s)) =
          approach_distance (landing_data s)
        \<and> avg_descent (landing_data (loop_iteration env s)) = avg_descent (landing_data s)"
    if "length (approach_path s) < 2"
    using that by (simp add: T(1))
  have pos: "touchdown_lat (landing_data (loop_iteration env s)) = Some (plane_latitude x)"
    "touchdown_lon (landing_data (loop_iteration env s)) = Some (plane_longitude x)"
    by (simp_all add: T(1))
  have ex: "mean (abs_steps [2000, 1500, 1000]) = 500"
    by (simp add: mean_def)
  have A: "\<forall>lat0 lon0 alt0 p1 rest d.
            approach_path s = (lat0, lon0, alt0) # p1 # rest
            \<and> calculate_distance lat0 lon0 (plane_latitude x) (plane_longitude x) = Inr d \<longrightarrow>
            approach_distance (landing_data (loop_iteration env s)) = Some d
            \<and> avg_descent (landing_data (loop_iteration env s)) =
                Some (mean (abs_steps (map (\<lambda>p. snd (snd p)) (approach_path s))))"
    by (intro allI impI) (rule two)
  have B: "length (approach_path s) < 2 \<longrightarrow>
        approach_distance (landing_data (loop_iteration env s)) =
          approach_distance (landing_data s)
        \<and> avg_descent (landing_data (loop_iteration env s)) = avg_descent (landing_data s)"
    by (intro impI) (rule few)
  have C: "length (approach_path s) < 2 \<and> approach_distance (landing_data s) = None
        \<and> avg_descent (landing_data s) = None \<longrightarrow>
        approach_distance (landing_data (loop_iteration env s)) = None
        \<and> avg_descent (landing_data (loop_iteration env s)) = None"
    using few by simp
  show ?thesis
    by (intro conjI A B C pos T(4) ex)
qed

theorem approach_statistics_at_touchdown_witness:
  "reading (reads 1) = Inr (descending_sample 1) \<and> sim_on_ground (descending_sample 1) = 1
   \<and> was_airborne (on_approach [2000, 1500, 1000])
   \<and> calculate_distance 1 0 0 0 = Inr (3440.065 * (pi / 180))
   \<and> approach_distance
        (landing_data (loop_iteration (reads 1)
           ((on_approach [2000, 1500, 1000])
              \<lparr>approach_path := [(1, 0, 2000), (0.5, 0, 1500), (0, 0, 1000)]\<rparr>)))
       = Some (3440.065 * (pi / 180))
   \<and> avg_descent
        (landing_data (loop_iteration (reads 1)
           ((on_approach [2000, 1500, 1000])
              \<lparr>approach_path := [(1, 0, 2000), (0.5, 0, 1500), (0, 0, 1000)]\<rparr>)))
       = Some 500
   \<and> approach_distance (landing_data (loop_iteration (reads 1) (on_approach [2000]))) = None
   \<and> avg_descent (landing_data (loop_iteration (reads 1) (on_approach [2000]))) = None"
proof -
  let ?s = "(on_approach [2000, 1500, 1000])
              \<lparr>approach_path := [(1, 0, 2000), (0.5, 0, 1500), (0, 0, 1000)]\<rparr>"
  have h: "reading (reads 1) = Inr (descending_sample 1)" "sim_on_ground (descending_sample 1) = 1"
    by (simp_all add: reads_fields)
  have w: "was_airborne (on_approach [2000, 1500, 1000])"
    by (simp add: on_approach_def initial_monitor_def)
  have s3: "was_airborne ?s" "\<not> ld_on_ground (landing_data ?s)"
    "approach_path ?s = (1, 0, 2000) # (0.5, 0, 1500) # [(0, 0, 1000)]"
    by (simp_all add: on_approach_def initial_monitor_def)
  have s1: "was_airborne (on_approach [2000])"
    "\<not> ld_on_ground (landing_data (on_approach [2000]))"
    "length (approach_path (on_approach [2000])) < 2"
    "approach_distance (landing_data (on_approach [2000])) = None"
    "avg_descent (landing_data (on_approach [2000])) = None"
    by (simp_all add: on_approach_def initial_monitor_def initial_landing_data_def)
  have "great_circle_nm 1 0 0 0 = 3440.065 * radians \<bar>0 - 1\<bar>"
    by (rule great_circle_nm_meridian) simp
  then have d: "calculate_distance 1 0 0 0 = Inr (3440.065 * (pi / 180))"
    by (simp add: calculate_distance_value radians_def)
  then have d': "calculate_distance 1 0 (plane_latitude (descending_sample 1))
             (plane_longitude (descending_sample 1)) = Inr (3440.065 * (pi / 180))"
    by (simp add: reads_fields)
  note A = approach_statistics_at_touchdown [OF h s3(1,2)]
  note B = approach_statistics_at_touchdown [OF h s1(1,2)]
  from A s3(3) d' have
    "approach_distance (landing_data (loop_iteration (reads 1) ?s)) = Some (3440.065 * (pi / 180))
     \<and> avg_descent (landing_data (loop_iteration (reads 1) ?s)) =
         Some (mean (abs_steps (map (\<lambda>p. snd (snd p)) (approach_path ?s))))"
    by blast
  then have a: "approach_distance (landing_data (loop_iteration (reads 1) ?s)) =
                  Some (3440.065 * (pi / 180))"
    and b: "avg_descent (landing_data (loop_iteration (reads 1) ?s)) = Some 500"
    by (simp_all add: s3(3) mean_def)
  from B s1(3-5) have c:
    "approach_distance (landing_data (loop_iteration (reads 1) (on_approach [2000]))) = None
     \<and> avg_descent (landing_data (loop_iteration (reads 1) (on_approach [2000]))) = None"
    by blast
  from h w d a b c show ?thesis by blast
qed

theorem approach_statistics_stale_counterexample:
  "approach_path second_session = []
   \<and> timestamp (landing_data second_session) = Some ''2024-01-01 01:00:00''
   \<and> LandingSignal (landing_data second_session) \<in> set (trace second_session)
   \<and> approach_distance (landing_data second_session) = Some 0
   \<and> avg_descent (landing_data second_session) = Some 500
   \<and> avg_descent (landing_data second_session) \<noteq> None"
proof -
  define s0 where "s0 = monitor_flight_locals 0 (toggle_monitoring initial_monitor)"
  define a1 where "a1 = loop_iteration (reads_approach 2000 0) s0"
  define a2 where "a2 = loop_iteration (reads_approach 1500 0) a1"
  define a3 where "a3 = loop_iteration (reads_approach 1000 0) a2"
  define a4 where "a4 = loop_iteration (reads_approach 0 1) a3"
  define b0 where "b0 = monitor_flight_locals 0 (toggle_monitoring (toggle_monitoring a4))"
  define b1 where "b1 = loop_iteration (reads_level 0) b0"
  define b2 where "b2 = loop_iteration (reads_level 1) b1"
  have first: "first_session = a4"
    by (simp add: first_session_def monitor_flight_def a4_def a3_def a2_def a1_def s0_def)
  have second: "second_session = b2"
    by (simp add: second_session_def monitor_flight_def first b2_def b1_def b0_def)
  have ra: "reading (reads_approach alt g) = Inr (approach_sample alt g)" for alt g
    by (simp add: reads_approach_def)
  have rl: "reading (reads_level g) = Inr (level_sample g)" for g
    by (simp add: reads_level_def)
  have ga: "sim_on_ground (approach_sample alt g) = g" for alt g
    by (simp add: approach_sample_def)
  have gl: "sim_on_ground (level_sample g) = g" for g
    by (simp add: level_sample_def)
  have ga0: "sim_on_ground (approach_sample alt 0) = 0" for alt by (simp add: ga)
  have gl0: "sim_on_ground (level_sample 0) = 0" by (simp add: gl)
  have ga1: "sim_on_ground (approach_sample alt 1) = 1" for alt by (simp add: ga)
  have gl1: "sim_on_ground (level_sample 1) = 1" by (simp add: gl)

  have s0: "\<not> was_airborne s0" "approach_path s0 = []" "monitoring s0"
    by (simp_all add: s0_def monitor_flight_locals_def toggle_monitoring_def initial_monitor_def
          emit_def)
  have a1: "was_airborne a1" "\<not> ld_on_ground (landing_data a1)"
    "approach_path a1 = [(0, 0, 2000)]"
    using s0
    by (simp_all add: a1_def loop_iteration_flags [OF ra] loop_iteration_path_airborne [OF ra ga0]
          ga approach_sample_def)
  have a2: "was_airborne a2" "\<not> ld_on_ground (landing_data a2)"
    "approach_path a2 = [(0, 0, 2000), (0, 0, 1500)]"
    using a1
    by (simp_all add: a2_def loop_iteration_flags [OF ra] loop_iteration_path_airborne [OF ra ga0]
          ga approach_sample_def)
  have a3: "was_airborne a3" "\<not> ld_on_ground (landing_data a3)"
    "approach_path a3 = [(0, 0, 2000), (0, 0, 1500), (0, 0, 1000)]"
    using a2
    by (simp_all add: a3_def loop_iteration_flags [OF ra] loop_iteration_path_airborne [OF ra ga0]
          ga approach_sample_def)
  note T = loop_iteration_touchdown [OF ra ga1 a3(1,2), of 0]
  have steps: "descent_steps (approach_path a3) = [500, 500]"
    by (simp add: descent_steps_abs_steps a3(3))
  have len: "length (approach_path a3) = 3" and hd: "hd (approach_path a3) = (0, 0, 2000)"
    by (simp_all add: a3(3))
  have a4: "approach_distance (landing_data a4) = Some 0"
    "avg_descent (landing_data a4) = Some 500"
    unfolding a4_def
    by (simp_all add: T(1) steps len hd approach_sample_def great_circle_nm_self)
  have m4: "monitoring a4"
    using s0(3) by (simp add: a4_def a3_def a2_def a1_def monitoring_kept)
  have b0: "\<not> was_airborne b0" "approach_path b0 = []"
    "approach_distance (landing_data b0) = Some 0" "avg_descent (landing_data b0) = Some 500"
    using m4 a4
    by (simp_all add: b0_def monitor_flight_locals_def toggle_monitoring_def emit_def)
  have b1: "was_airborne b1" "\<not> ld_on_ground (landing_data b1)" "approach_path b1 = []"
    "approach_distance (landing_data b1) = Some 0" "avg_descent (landing_data b1) = Some 500"
    using b0
    by (simp_all add: b1_def loop_iteration_flags [OF rl] loop_iteration_path_airborne [OF rl gl0]
          loop_iteration_data_airborne [OF rl gl0] gl level_sample_def)
  have nw: "now (reads_level 1) = ''2024-01-01 01:00:00''"
    by (simp add: reads_level_def)
  note U = loop_iteration_touchdown [OF rl gl1 b1(1,2)]
  have b2: "approach_path b2 = []"
    "timestamp (landing_data b2) = Some ''2024-01-01 01:00:00''"
    "approach_distance (landing_data b2) = Some 0"
    "avg_descent (landing_data b2) = Some 500"
    unfolding b2_def
    by (simp_all add: U(1,2) b1 nw)
  have sig: "LandingSignal (landing_data b2) \<in> set (trace b2)"
    unfolding b2_def by (rule U(4))
  show ?thesis
    unfolding second using b2 sig by simp
qed

text \<open>
  C4. At a detected touchdown the approach path is read for the landing
  statistics and kept as it is; only \<open>recording_approach\<close> is reset. The path is emptied
  when a monitoring session starts, and when the landing data is reset.
\<close>

theorem approach_path_kept_at_touchdown:
  "(reading env = Inr x \<and> sim_on_ground x = 1 \<and> was_airborne s
      \<and> \<not> ld_on_ground (landing_data s) \<longrightarrow>
      touchdowns (trace (loop_iteration env s)) = touchdowns (trace s) + 1
      \<and> approach_path (loop_iteration env s) = approach_path s
      \<and> recording_approach (loop_iteration env s) = False)
   \<and> (\<not> monitoring s \<longrightarrow>
        approach_path (toggle_monitoring s) = []
        \<and> approach_path (monitor_flight_locals t0 (toggle_monitoring s)) = [])
   \<and> approach_path (reset_landing_data s) = []"
proof (intro conjI impI)
  assume a: "reading env = Inr x \<and> sim_on_ground x = 1 \<and> was_airborne s
      \<and> \<not> ld_on_ground (landing_data s)"
  then have r: "reading env = Inr x" and g: "sim_on_ground x = 1"
    and wa: "was_airborne s" and l: "\<not> ld_on_ground (landing_data s)"
    by simp_all
  show "touchdowns (trace (loop_iteration env s)) = touchdowns (trace s) + 1"
    using g wa l by (simp add: loop_iteration_flags [OF r])
  show "approach_path (loop_iteration env s) = approach_path s"
    by (rule loop_iteration_touchdown(2) [OF r g wa l])
  show "recording_approach (loop_iteration env s) = False"
    by (rule loop_iteration_touchdown(3) [OF r g wa l])
next
  assume "\<not> monitoring s"
  then show "approach_path (toggle_monitoring s) = []"
    and "approach_path (monitor_flight_locals t0 (toggle_monitoring s)) = []"
    by (simp_all add: toggle_monitoring_def monitor_flight_locals_fields)
next
  show "approach_path (reset_landing_data s) = []"
    by (simp add: reset_landing_data_def emit_def)
qed

theorem approach_path_kept_at_touchdown_witness:
  "reading (reads 1) = Inr (descending_sample 1) \<and> sim_on_ground (descending_sample 1) = 1
   \<and> was_airborne (on_approach [2000, 1500])
   \<and> \<not> ld_on_ground (landing_data (on_approach [2000, 1500]))
   \<and> approach_path (loop_iteration (reads 1) (on_approach [2000, 1500])) =
       [(0, 0, 2000), (0, 0, 1500)]
   \<and> recording_approach (loop_iteration (reads 1) (on_approach [2000, 1500])) = False
   \<and> \<not> monitoring initial_monitor
   \<and> approach_path (toggle_monitoring initial_monitor) = []"
proof -
  have h: "reading (reads 1) = Inr (descending_sample 1) \<and> sim_on_ground (descending_sample 1) = 1
     \<and> was_airborne (on_approach [2000, 1500])
     \<and> \<not> ld_on_ground (landing_data (on_approach [2000, 1500]))"
    by (simp add: reads_fields on_approach_def initial_monitor_def)
  have p: "approach_path (on_approach [2000, 1500]) = [(0, 0, 2000), (0, 0, 1500)]"
    by (simp add: on_approach_def initial_monitor_def)
  have m: "\<not> monitoring initial_monitor"
    by (simp add: initial_monitor_def)
  from approach_path_kept_at_touchdown
         [of "reads 1" "descending_sample 1" "on_approach [2000, 1500]" 0] h
  have a: "approach_path (loop_iteration (reads 1) (on_approach [2000, 1500])) =
             approach_path (on_approach [2000, 1500])
           \<and> recording_approach (loop_iteration (reads 1) (on_approach [2000, 1500])) = False"
    by blast
  from approach_path_kept_at_touchdown [of "reads 1" "descending_sample 1" initial_monitor 0] m
  have b: "approach_path (toggle_monitoring initial_monitor) = []"
    by blast
  from h a b m show ?thesis by (simp add: p)
qed

theorem approach_path_reset_counterexample:
  "touchdowns (trace (monitor_flight 0 [reads 0, reads 0, reads 1]
      (toggle_monitoring initial_monitor))) = 1
   \<and> approach_path (monitor_flight 0 [reads 0, reads 0, reads 1]
      (toggle_monitoring initial_monitor)) = [(0, 0, 1000), (0, 0, 1000)]
   \<and> approach_path (monitor_flight 0 [reads 0, reads 0, reads 1]
      (toggle_monitoring initial_monitor)) \<noteq> []"
proof -
  let ?s0 = "monitor_flight_locals 0 (toggle_monitoring initial_monitor)"
  let ?envs = "[reads 0, reads 0, reads 1]"
  have "\<not> was_airborne ?s0"
    by (simp add: monitor_flight_locals_fields)
  then have "touchdown_ticks 1 ?envs ?s0 = first_ground_after_air 1 (map on_ground_reading ?envs)"
    by (rule touchdown_ticks_fresh)
  then have ticks: "touchdown_ticks 1 ?envs ?s0 = [3]"
    by (simp add: reads_fields)
  have "trace (toggle_monitoring initial_monitor) =
          [LogSignal StartedMonitoring, ClearBreadcrumbs]"
    by (simp add: toggle_monitoring_def initial_monitor_def emit_def)
  then have z: "touchdowns (trace ?s0) = 0"
    by (simp add: monitor_flight_locals_fields touchdowns_simps)
  have c: "touchdowns (trace (monitor_loop ?envs ?s0)) =
           touchdowns (trace ?s0) + length (touchdown_ticks 1 ?envs ?s0)"
    by (rule touchdowns_count_ticks)
  have n: "touchdowns (trace (monitor_flight 0 ?envs (toggle_monitoring initial_monitor))) = 1"
    unfolding monitor_flight_def c ticks z by simp
  have e: "approach_path ?s0 = []"
    by (simp add: monitor_flight_locals_fields toggle_monitoring_def initial_monitor_def)
  have r0: "reading (reads 0) = Inr (descending_sample 0)"
    and r1: "reading (reads 1) = Inr (descending_sample 1)"
    by (simp_all add: reads_fields)
  have g0: "sim_on_ground (descending_sample 0) = 0"
    and g1: "sim_on_ground (descending_sample 1) \<noteq> 0"
    by (simp_all add: reads_fields)
  have p: "approach_path (monitor_flight 0 ?envs (toggle_monitoring initial_monitor)) =
             [(0, 0, 1000), (0, 0, 1000)]"
    by (simp add: monitor_flight_def loop_iteration_path_ground [OF r1 g1]
          loop_iteration_path_airborne [OF r0 g0] e reads_fields)
  from n p show ?thesis by simp
qed

end
